theory Spec2Isabelle
  imports Main
begin

section \<open>Source text and tokens\<close>

text \<open>
  A Python \<open>str\<close> is a sequence of Unicode code points; it is modelled as a list of
  natural numbers.  Identifiers of the abstract syntax, which the lexer restricts to ASCII
  letters, digits, underscores and joining dots, are HOL strings.
\<close>

type_synonym pystr = "nat list"

definition cps :: "string \<Rightarrow> pystr" where
  "cps s = map of_char s"

record token =
  ttype :: string
  tval :: pystr
  tpos :: nat

definition Token :: "string \<Rightarrow> pystr \<Rightarrow> nat \<Rightarrow> token" where
  "Token k v p = \<lparr>ttype = k, tval = v, tpos = p\<rparr>"

definition KEYWORDS :: "string list" where
  "KEYWORDS = [''if'', ''else'', ''while'', ''for'', ''foreach'', ''in'', ''return'',
     ''namespace'', ''using'', ''var'', ''int'', ''float'', ''string'', ''bool'', ''List'',
     ''true'', ''false'']"

definition upper_char :: "char \<Rightarrow> char" where
  "upper_char c = (let n = (of_char c :: nat) in
     if 97 \<le> n \<and> n \<le> 122 then char_of (n - 32) else c)"

definition upper :: "string \<Rightarrow> string" where
  "upper s = map upper_char s"

subsection \<open>The token patterns\<close>

text \<open>
  Each pattern of \<open>TOKEN_SPEC\<close> is a function from the remaining input to the length of
  its match at the front of that input, if there is one.  For a \<open>str\<close> pattern, \<open>\d\<close>
  is any Unicode decimal digit; the digits beyond ASCII come from the host's character
  database, which is the parameter \<open>nd\<close> here.
\<close>

definition is_digit :: "(nat \<Rightarrow> bool) \<Rightarrow> nat \<Rightarrow> bool" where
  "is_digit nd c \<longleftrightarrow> (48 \<le> c \<and> c \<le> 57) \<or> (128 \<le> c \<and> nd c)"

definition is_id_start :: "nat \<Rightarrow> bool" where
  "is_id_start c \<longleftrightarrow> (65 \<le> c \<and> c \<le> 90) \<or> (97 \<le> c \<and> c \<le> 122) \<or> c = 95"

definition is_id_char :: "nat \<Rightarrow> bool" where
  "is_id_char c \<longleftrightarrow> is_id_start c \<or> (48 \<le> c \<and> c \<le> 57)"

definition is_ws :: "nat \<Rightarrow> bool" where
  "is_ws c \<longleftrightarrow> c = 32 \<or> c = 9 \<or> c = 13 \<or> c = 10"

definition op_chars :: "nat list" where
  "op_chars = cps ''+-*/%<>=!.,;:{}()[]''"

definition op_pairs :: "pystr list" where
  "op_pairs = map cps [''=='', ''!='', ''<='', ''>='', ''&&'', ''||'']"

definition match_NUMBER :: "(nat \<Rightarrow> bool) \<Rightarrow> pystr \<Rightarrow> nat option" where
  "match_NUMBER nd s =
     (let n = length (takeWhile (is_digit nd) s) in
      if n = 0 then None
      else (case drop n s of
              c # r \<Rightarrow>
                (let m = length (takeWhile (is_digit nd) r) in
                 if c = 46 \<and> 0 < m then Some (n + 1 + m) else Some n)
            | [] \<Rightarrow> Some n))"

fun string_body :: "pystr \<Rightarrow> nat option" where
  "string_body [] = None"
| "string_body [c] = (if c = 34 then Some 1 else None)"
| "string_body (c # d # r) =
     (if c = 34 then Some 1
      else if c = 92 then
        (if d = 10 then None else map_option (\<lambda>k. k + 2) (string_body r))
      else map_option Suc (string_body (d # r)))"

definition match_STRING :: "pystr \<Rightarrow> nat option" where
  "match_STRING s = (case s of c # r \<Rightarrow>
      if c = 34 then map_option Suc (string_body r) else None | [] \<Rightarrow> None)"

definition match_ID :: "pystr \<Rightarrow> nat option" where
  "match_ID s = (case s of c # r \<Rightarrow>
      if is_id_start c then Some (Suc (length (takeWhile is_id_char r))) else None
    | [] \<Rightarrow> None)"

definition match_OP :: "pystr \<Rightarrow> nat option" where
  "match_OP s =
     (if take 2 s \<in> set op_pairs then Some 2
      else (case s of c # r \<Rightarrow> if c \<in> set op_chars then Some 1 else None
            | [] \<Rightarrow> None))"

definition match_WS :: "pystr \<Rightarrow> nat option" where
  "match_WS s = (let n = length (takeWhile is_ws s) in if n = 0 then None else Some n)"

definition match_COMMENT :: "pystr \<Rightarrow> nat option" where
  "match_COMMENT s =
     (if take 2 s = [47, 47]
      then Some (2 + length (takeWhile (\<lambda>c. c \<noteq> 10) (drop 2 s))) else None)"

text \<open>
  \<open>MASTER\<close> is the alternation of the six named groups in the order of \<open>TOKEN_SPEC\<close>:
  the first alternative that matches wins, and \<open>lastgroup\<close> is its name.
\<close>

fun first_group :: "(string \<times> nat option) list \<Rightarrow> (string \<times> nat) option" where
  "first_group [] = None"
| "first_group ((k, None) # alts) = first_group alts"
| "first_group ((k, Some n) # alts) = Some (k, n)"

definition MASTER :: "(nat \<Rightarrow> bool) \<Rightarrow> pystr \<Rightarrow> (string \<times> nat) option" where
  "MASTER nd s = first_group
     [(''NUMBER'', match_NUMBER nd s), (''STRING'', match_STRING s), (''ID'', match_ID s),
      (''OP'', match_OP s), (''WS'', match_WS s), (''COMMENT'', match_COMMENT s)]"

lemma string_body_pos: "string_body s = Some n \<Longrightarrow> 0 < n \<and> n \<le> length s"
  by (induction s arbitrary: n rule: string_body.induct) (auto split: if_splits)

lemma match_NUMBER_pos: "match_NUMBER nd s = Some n \<Longrightarrow> 0 < n"
  by (auto simp: match_NUMBER_def Let_def split: if_splits list.splits)

lemma match_STRING_pos: "match_STRING s = Some n \<Longrightarrow> 0 < n"
  by (auto simp: match_STRING_def split: if_splits list.splits)

lemma match_ID_pos: "match_ID s = Some n \<Longrightarrow> 0 < n"
  by (auto simp: match_ID_def split: if_splits list.splits)

lemma match_OP_pos: "match_OP s = Some n \<Longrightarrow> 0 < n"
  by (auto simp: match_OP_def split: if_splits list.splits)

lemma match_WS_pos: "match_WS s = Some n \<Longrightarrow> 0 < n"
  by (auto simp: match_WS_def Let_def split: if_splits)

lemma match_COMMENT_pos: "match_COMMENT s = Some n \<Longrightarrow> 0 < n"
  by (auto simp: match_COMMENT_def split: if_splits)

lemma MASTER_pos: "MASTER nd s = Some (k, n) \<Longrightarrow> 0 < n"
  unfolding MASTER_def
  by (cases "match_NUMBER nd s"; cases "match_STRING s"; cases "match_ID s";
      cases "match_OP s"; cases "match_WS s"; cases "match_COMMENT s")
     (auto dest: match_NUMBER_pos match_STRING_pos match_ID_pos match_OP_pos match_WS_pos
        match_COMMENT_pos)

subsection \<open>lex\<close>

text \<open>
  \<open>MASTER.finditer(src)\<close> scans from left to right: where the pattern matches, the match
  is reported and the scan resumes at its end; where it does not, the scan moves on by
  one character.  \<open>lex\<close> drops whitespace and comments, renames identifiers that are
  keywords, and appends the \<open>EOF\<close> token.
\<close>

definition keyword :: "pystr \<Rightarrow> string option" where
  "keyword v = find (\<lambda>k. cps k = v) KEYWORDS"

definition mk_token :: "string \<Rightarrow> pystr \<Rightarrow> nat \<Rightarrow> token" where
  "mk_token k v p =
     (case (if k = ''ID'' then keyword v else None) of
        Some kw \<Rightarrow> Token (upper kw) v p
      | None \<Rightarrow> Token k v p)"

function lex_from :: "(nat \<Rightarrow> bool) \<Rightarrow> nat \<Rightarrow> pystr \<Rightarrow> token list" where
  "lex_from nd p s =
     (if s = [] then [Token ''EOF'' [] p]
      else (case MASTER nd s of
              None \<Rightarrow> lex_from nd (Suc p) (tl s)
            | Some (k, n) \<Rightarrow>
                (if k = ''WS'' \<or> k = ''COMMENT'' then lex_from nd (p + n) (drop n s)
                 else mk_token k (take n s) p # lex_from nd (p + n) (drop n s))))"
  by pat_completeness auto
termination
  by (relation "measure (\<lambda>(nd, p, s). length s)") (auto dest: MASTER_pos)

declare lex_from.simps [simp del]

definition lex :: "(nat \<Rightarrow> bool) \<Rightarrow> pystr \<Rightarrow> token list" where
  "lex nd src = lex_from nd 0 src"

section \<open>String literals\<close>

datatype codec_error = UnicodeEncodeError | UnicodeDecodeError | CodecUnmodelled

definition utf8_encode_cp :: "nat \<Rightarrow> codec_error + nat list" where
  "utf8_encode_cp c =
     (if c < 128 then Inr [c]
      else if c < 2048 then Inr [192 + c div 64, 128 + c mod 64]
      else if 55296 \<le> c \<and> c \<le> 57343 then Inl UnicodeEncodeError
      else if c < 65536 then
        Inr [224 + c div 4096, 128 + (c div 64) mod 64, 128 + c mod 64]
      else if c < 1114112 then
        Inr [240 + c div 262144, 128 + (c div 4096) mod 64, 128 + (c div 64) mod 64,
             128 + c mod 64]
      else Inl UnicodeEncodeError)"

fun utf8_encode :: "pystr \<Rightarrow> codec_error + nat list" where
  "utf8_encode [] = Inr []"
| "utf8_encode (c # cs) =
     (case utf8_encode_cp c of
        Inl e \<Rightarrow> Inl e
      | Inr bs \<Rightarrow> (case utf8_encode cs of Inl e \<Rightarrow> Inl e | Inr r \<Rightarrow> Inr (bs @ r)))"

definition hexval :: "nat \<Rightarrow> nat option" where
  "hexval c =
     (if 48 \<le> c \<and> c \<le> 57 then Some (c - 48)
      else if 97 \<le> c \<and> c \<le> 102 then Some (c - 87)
      else if 65 \<le> c \<and> c \<le> 70 then Some (c - 55)
      else None)"

fun hexescape :: "nat \<Rightarrow> nat \<Rightarrow> nat list \<Rightarrow> (nat \<times> nat list) option" where
  "hexescape 0 ch s = Some (ch, s)"
| "hexescape (Suc count) ch [] = None"
| "hexescape (Suc count) ch (c # s) =
     (case hexval c of None \<Rightarrow> None | Some d \<Rightarrow> hexescape count (ch * 16 + d) s)"

definition is_octal :: "nat \<Rightarrow> bool" where
  "is_octal c \<longleftrightarrow> 48 \<le> c \<and> c \<le> 55"

definition octescape :: "nat \<Rightarrow> nat list \<Rightarrow> nat \<times> nat list" where
  "octescape c s =
     (case s of
        d # r \<Rightarrow>
          if is_octal d then
            (case r of
               e # r' \<Rightarrow>
                 if is_octal e then (((c - 48) * 8 + (d - 48)) * 8 + (e - 48), r')
                 else ((c - 48) * 8 + (d - 48), r)
             | [] \<Rightarrow> ((c - 48) * 8 + (d - 48), r))
          else (c - 48, s)
      | [] \<Rightarrow> (c - 48, s))"

definition escape :: "nat \<Rightarrow> nat list \<Rightarrow> codec_error + (nat list \<times> nat list)" where
  "escape c s =
     (if c = 10 then Inr ([], s)
      else if c = 92 then Inr ([92], s)
      else if c = 39 then Inr ([39], s)
      else if c = 34 then Inr ([34], s)
      else if c = 98 then Inr ([8], s)
      else if c = 102 then Inr ([12], s)
      else if c = 116 then Inr ([9], s)
      else if c = 110 then Inr ([10], s)
      else if c = 114 then Inr ([13], s)
      else if c = 118 then Inr ([11], s)
      else if c = 97 then Inr ([7], s)
      else if is_octal c then (case octescape c s of (ch, r) \<Rightarrow> Inr ([ch], r))
      else if c = 120 \<or> c = 117 \<or> c = 85 then
        (case hexescape (if c = 120 then 2 else if c = 117 then 4 else 8) 0 s of
           None \<Rightarrow> Inl UnicodeDecodeError
         | Some (ch, r) \<Rightarrow> if ch > 1114111 then Inl UnicodeDecodeError else Inr ([ch], r))
      else if c = 78 then Inl CodecUnmodelled
      else Inr ([92, c], s))"

lemma hexescape_length: "hexescape k ch s = Some (v, r) \<Longrightarrow> length r \<le> length s"
  by (induction k ch s rule: hexescape.induct) (auto split: option.splits)

lemma octescape_length: "octescape c s = (v, r) \<Longrightarrow> length r \<le> length s"
  by (auto simp: octescape_def split: list.splits if_splits)

lemma escape_length: "escape c s = Inr (out, r) \<Longrightarrow> length r \<le> length s"
  by (auto simp: escape_def split: if_splits option.splits prod.splits
      dest: hexescape_length octescape_length)

function unicode_escape_decode :: "nat list \<Rightarrow> codec_error + pystr" where
  "unicode_escape_decode [] = Inr []"
| "unicode_escape_decode (c # s) =
     (if c \<noteq> 92 then
        (case unicode_escape_decode s of Inl e \<Rightarrow> Inl e | Inr t \<Rightarrow> Inr (c # t))
      else (case s of
              [] \<Rightarrow> Inl UnicodeDecodeError
            | d # r \<Rightarrow>
                (case escape d r of
                   Inl e \<Rightarrow> Inl e
                 | Inr (out, rest) \<Rightarrow>
                     (case unicode_escape_decode rest of
                        Inl e \<Rightarrow> Inl e
                      | Inr t \<Rightarrow> Inr (out @ t)))))"
  by pat_completeness auto
termination
  by (relation "measure length") (auto dest: escape_length)

definition string_value :: "pystr \<Rightarrow> codec_error + pystr" where
  "string_value v =
     (case utf8_encode (butlast (tl v)) of
        Inl e \<Rightarrow> Inl e
      | Inr bs \<Rightarrow> unicode_escape_decode bs)"

subsection \<open>The decoding the specification describes\<close>

definition spec_escapes :: "(nat \<times> nat) list" where
  "spec_escapes = [(110, 10), (116, 9), (114, 13), (92, 92), (34, 34)]"

fun spec_unescape :: "pystr \<Rightarrow> pystr" where
  "spec_unescape [] = []"
| "spec_unescape [c] = [c]"
| "spec_unescape (c # d # r) =
     (case (if c = 92 then map_of spec_escapes d else None) of
        Some x \<Rightarrow> x # spec_unescape r
      | None \<Rightarrow> c # spec_unescape (d # r))"

definition codec_escapes :: "nat list" where
  "codec_escapes = [10, 39, 98, 102, 118, 97, 48, 49, 50, 51, 52, 53, 54, 55, 120, 117, 85, 78]"

fun plain_escapes :: "pystr \<Rightarrow> bool" where
  "plain_escapes [] = True"
| "plain_escapes [c] = (c \<noteq> 92)"
| "plain_escapes (c # d # r) =
     (if c = 92 then d \<notin> set codec_escapes \<and> plain_escapes r else plain_escapes (d # r))"

section \<open>Abstract syntax\<close>

text \<open>
  The parser builds dictionaries keyed by \<open>kind\<close>; each kind it builds is a constructor
  here, with the dictionary's other entries as arguments.  Operators are the operator
  strings that \<open>PRECEDENCE\<close> and \<open>UNARY_OPS\<close> admit.  A number literal with a decimal
  point is a host float, kept as its lexeme.  The declared type of a \<open>vardecl\<close> and the
  \<open>rettype\<close> of a \<open>func\<close> are the lexemes the parser stores there.
\<close>

datatype unop = Neg | Not | Pos

datatype binop = Add | Sub | Mul | Div | Mod | Eq | Ne | Lt | Gt | Le | Ge | And | Or

datatype expr =
    ENumber int
  | EFloat pystr
  | EString pystr
  | EBool bool
  | EVar string
  | ECall string "expr list"
  | EIndex string expr
  | EUnary unop expr
  | EBin binop expr expr

datatype target = TVar string | TIndex string expr

datatype for_init = InitDecl pystr string "expr option" | InitExpr expr

datatype stmt =
    Block "stmt list"
  | VarDecl pystr string "expr option"
  | Assign target expr
  | ExprStmt expr
  | If expr stmt "stmt option"
  | While expr stmt
  | For "for_init option" "expr option" "expr option" stmt
  | Foreach string string stmt
  | Return "expr option"
  | FuncDecl string "string list" "stmt list" pystr

section \<open>Values and the runtime state\<close>

datatype builtin = WriteLine | ReadLine | List_ctor

datatype val =
    VInt int
  | VFloat pystr
  | VStr pystr
  | VBool bool
  | VNone
  | VList nat
  | VBuiltin builtin
  | VConsole

text \<open>
  Exceptions of the host.  \<open>Unmodelled\<close> stands for behaviour of the host that this
  development does not describe: float arithmetic, arithmetic and comparison of lists,
  string formatting with \<open>%\<close>, the division \<open>/\<close> of integers (whose result is a float),
  attributes whose names begin with two underscores, the value of an integer literal that
  has a non-ASCII digit or more than 4300 digits, and the escape \<open>\N\<close>.  The memory of the
  host is not bounded in the model.
\<close>

datatype exn =
    ReturnSignal val
  | NameError string
  | TypeError
  | IndexError
  | AttributeError
  | ZeroDivisionError
  | OverflowError
  | ParseError
  | CodecError codec_error
  | Unmodelled

type_synonym env = "string \<rightharpoonup> val"

text \<open>
  Dictionaries and lists are objects that several names can refer to.  \<open>frames\<close> holds the
  environment dictionaries: index 0 is \<open>Runtime.globals\<close>, every call of a user function
  appends the dictionary it creates.  \<open>heap\<close> holds the list objects, a \<open>VList a\<close> refers
  to \<open>heap ! a\<close>.  \<open>out\<close> records the argument tuple of every \<open>print\<close> (how the host
  renders the values as text is not modelled), \<open>inp\<close> is the lines still to be read from
  standard input.
\<close>

record state =
  frames :: "env list"
  heap :: "val list list"
  function_table :: "string \<rightharpoonup> (string list \<times> stmt list)"
  out :: "val list list"
  inp :: "pystr list"

type_synonym 'a result = "((exn + 'a) \<times> state) option"

definition bind :: "'a result \<Rightarrow> ('a \<Rightarrow> state \<Rightarrow> 'b result) \<Rightarrow> 'b result" where
  "bind m f =
     (case m of
        None \<Rightarrow> None
      | Some (Inl e, st) \<Rightarrow> Some (Inl e, st)
      | Some (Inr a, st) \<Rightarrow> f a st)"

definition set_var :: "nat \<Rightarrow> string \<Rightarrow> val \<Rightarrow> state \<Rightarrow> state" where
  "set_var k name v st = st\<lparr>frames := (frames st)[k := (frames st ! k)(name \<mapsto> v)]\<rparr>"

subsection \<open>Host operations on values\<close>

definition as_int :: "val \<Rightarrow> int option" where
  "as_int v = (case v of VInt i \<Rightarrow> Some i | VBool b \<Rightarrow> Some (if b then 1 else 0) | _ \<Rightarrow> None)"

definition is_float :: "val \<Rightarrow> bool" where
  "is_float v = (case v of VFloat t \<Rightarrow> True | _ \<Rightarrow> False)"

definition is_str :: "val \<Rightarrow> bool" where
  "is_str v = (case v of VStr s \<Rightarrow> True | _ \<Rightarrow> False)"

definition is_list :: "val \<Rightarrow> bool" where
  "is_list v = (case v of VList a \<Rightarrow> True | _ \<Rightarrow> False)"

definition truthy :: "state \<Rightarrow> val \<Rightarrow> exn + bool" where
  "truthy st v =
     (case v of
        VInt i \<Rightarrow> Inr (i \<noteq> 0)
      | VFloat t \<Rightarrow> Inl Unmodelled
      | VStr s \<Rightarrow> Inr (s \<noteq> [])
      | VBool b \<Rightarrow> Inr b
      | VNone \<Rightarrow> Inr False
      | VList a \<Rightarrow> Inr (heap st ! a \<noteq> [])
      | VBuiltin b \<Rightarrow> Inr True
      | VConsole \<Rightarrow> Inr True)"

definition unary_op :: "state \<Rightarrow> unop \<Rightarrow> val \<Rightarrow> exn + val" where
  "unary_op st op v =
     (case op of
        Not \<Rightarrow> (case truthy st v of Inl e \<Rightarrow> Inl e | Inr b \<Rightarrow> Inr (VBool (\<not> b)))
      | Neg \<Rightarrow>
          (case as_int v of
             Some i \<Rightarrow> Inr (VInt (- i))
           | None \<Rightarrow> if is_float v then Inl Unmodelled else Inl TypeError)
      | Pos \<Rightarrow>
          (case as_int v of
             Some i \<Rightarrow> Inr (VInt i)
           | None \<Rightarrow> if is_float v then Inl Unmodelled else Inl TypeError))"

fun str_less :: "pystr \<Rightarrow> pystr \<Rightarrow> bool" where
  "str_less [] [] = False"
| "str_less [] (y # ys) = True"
| "str_less (x # xs) [] = False"
| "str_less (x # xs) (y # ys) = (x < y \<or> (x = y \<and> str_less xs ys))"

definition py_eq :: "val \<Rightarrow> val \<Rightarrow> bool" where
  "py_eq a b =
     (case (as_int a, as_int b) of
        (Some x, Some y) \<Rightarrow> x = y
      | _ \<Rightarrow> as_int a = None \<and> as_int b = None \<and> a = b)"

definition compare :: "binop \<Rightarrow> val \<Rightarrow> val \<Rightarrow> exn + val" where
  "compare op a b =
     (case (as_int a, as_int b) of
        (Some x, Some y) \<Rightarrow>
          Inr (VBool (if op = Lt then x < y else if op = Gt then y < x
                      else if op = Le then x \<le> y else y \<le> x))
      | _ \<Rightarrow>
          (case (a, b) of
             (VStr s, VStr t) \<Rightarrow>
               Inr (VBool (if op = Lt then str_less s t else if op = Gt then str_less t s
                           else if op = Le then \<not> str_less t s else \<not> str_less s t))
           | _ \<Rightarrow> Inl TypeError))"

definition str_repeat :: "pystr \<Rightarrow> int \<Rightarrow> exn + val" where
  "str_repeat s n =
     (if n < - (2 ^ 63) \<or> 2 ^ 63 \<le> n \<or> 2 ^ 63 \<le> int (length s) * n then Inl OverflowError
      else Inr (VStr (concat (replicate (nat n) s))))"

definition arith :: "binop \<Rightarrow> val \<Rightarrow> val \<Rightarrow> exn + val" where
  "arith op a b =
     (case (as_int a, as_int b) of
        (Some x, Some y) \<Rightarrow>
          (if op = Add then Inr (VInt (x + y))
           else if op = Sub then Inr (VInt (x - y))
           else if op = Mul then Inr (VInt (x * y))
           else if y = 0 then Inl ZeroDivisionError
           else if op = Mod then Inr (VInt (x mod y))
           else Inl Unmodelled)
      | _ \<Rightarrow>
          (case (a, b) of
             (VStr s, VStr t) \<Rightarrow>
               if op = Add then Inr (VStr (s @ t))
               else if op = Mod then Inl Unmodelled else Inl TypeError
           | (VStr s, _) \<Rightarrow>
               if op = Mod then Inl Unmodelled
               else if op = Mul then
                 (case as_int b of Some n \<Rightarrow> str_repeat s n | None \<Rightarrow> Inl TypeError)
               else Inl TypeError
           | (_, VStr t) \<Rightarrow>
               if op = Mul then
                 (case as_int a of Some n \<Rightarrow> str_repeat t n | None \<Rightarrow> Inl TypeError)
               else Inl TypeError
           | _ \<Rightarrow> Inl TypeError))"

definition bin_op :: "state \<Rightarrow> binop \<Rightarrow> val \<Rightarrow> val \<Rightarrow> exn + val" where
  "bin_op st op a b =
     (if op = And then
        (case truthy st a of
           Inl e \<Rightarrow> Inl e
         | Inr False \<Rightarrow> Inr (VBool False)
         | Inr True \<Rightarrow> (case truthy st b of Inl e \<Rightarrow> Inl e | Inr t \<Rightarrow> Inr (VBool t)))
      else if op = Or then
        (case truthy st a of
           Inl e \<Rightarrow> Inl e
         | Inr True \<Rightarrow> Inr (VBool True)
         | Inr False \<Rightarrow> (case truthy st b of Inl e \<Rightarrow> Inl e | Inr t \<Rightarrow> Inr (VBool t)))
      else if is_float a \<or> is_float b then Inl Unmodelled
      else if is_list a \<or> is_list b then
        (if op \<in> {Sub, Div} \<or> (op = Mod \<and> \<not> is_str a) then Inl TypeError
         else Inl Unmodelled)
      else if op = Eq then Inr (VBool (py_eq a b))
      else if op = Ne then Inr (VBool (\<not> py_eq a b))
      else if op \<in> {Lt, Gt, Le, Ge} then compare op a b
      else arith op a b)"

definition py_index :: "nat \<Rightarrow> int \<Rightarrow> nat option" where
  "py_index n i =
     (let j = (if i < 0 then i + int n else i)
      in if 0 \<le> j \<and> j < int n then Some (nat j) else None)"

definition index_val :: "state \<Rightarrow> val \<Rightarrow> val \<Rightarrow> exn + val" where
  "index_val st tgt idx =
     (case tgt of
        VList a \<Rightarrow>
          (case as_int idx of
             None \<Rightarrow> Inl TypeError
           | Some i \<Rightarrow>
               (case py_index (length (heap st ! a)) i of
                  None \<Rightarrow> Inl IndexError
                | Some j \<Rightarrow> Inr (heap st ! a ! j)))
      | VStr s \<Rightarrow>
          (case as_int idx of
             None \<Rightarrow> Inl TypeError
           | Some i \<Rightarrow>
               (case py_index (length s) i of
                  None \<Rightarrow> Inl IndexError
                | Some j \<Rightarrow> Inr (VStr [s ! j])))
      | _ \<Rightarrow> Inl TypeError)"

definition store_index :: "val \<Rightarrow> val \<Rightarrow> val \<Rightarrow> state \<Rightarrow> (exn + unit) \<times> state" where
  "store_index arr idx v st =
     (case arr of
        VList a \<Rightarrow>
          (case as_int idx of
             None \<Rightarrow> (Inl TypeError, st)
           | Some i \<Rightarrow>
               (case py_index (length (heap st ! a)) i of
                  None \<Rightarrow> (Inl IndexError, st)
                | Some j \<Rightarrow> (Inr (), st\<lparr>heap := (heap st)[a := (heap st ! a)[j := v]]\<rparr>)))
      | _ \<Rightarrow>
          (case as_int idx of
             None \<Rightarrow> (Inl TypeError, st)
           | Some i \<Rightarrow>
               if (is_str arr \<or> arr = VConsole) \<and> (i < - (2 ^ 63) \<or> 2 ^ 63 \<le> i)
               then (Inl IndexError, st) else (Inl TypeError, st)))"

subsection \<open>The standard library\<close>

definition stdlib :: "string \<Rightarrow> val option" where
  "stdlib name =
     (if name = ''Console'' then Some VConsole
      else if name = ''List'' then Some (VBuiltin List_ctor)
      else None)"

definition py_getattr :: "val \<Rightarrow> string \<Rightarrow> exn + val" where
  "py_getattr obj name =
     (if obj = VConsole \<and> name = ''WriteLine'' then Inr (VBuiltin WriteLine)
      else if obj = VConsole \<and> name = ''ReadLine'' then Inr (VBuiltin ReadLine)
      else if take 2 name = ''__'' then Inl Unmodelled
      else if obj = VConsole \<or> (\<exists>b \<in> {WriteLine, ReadLine, List_ctor}. obj = VBuiltin b)
        then Inl AttributeError
      else Inl Unmodelled)"

fun getattrs :: "val \<Rightarrow> string list \<Rightarrow> exn + val" where
  "getattrs obj [] = Inr obj"
| "getattrs obj (part # parts) =
     (case py_getattr obj part of Inl e \<Rightarrow> Inl e | Inr obj' \<Rightarrow> getattrs obj' parts)"

definition call_builtin :: "builtin \<Rightarrow> val list \<Rightarrow> state \<Rightarrow> (exn + val) \<times> state" where
  "call_builtin b args st =
     (case b of
        WriteLine \<Rightarrow> (Inr VNone, st\<lparr>out := out st @ [args]\<rparr>)
      | ReadLine \<Rightarrow>
          (if args \<noteq> [] then (Inl TypeError, st)
           else (case inp st of
                   [] \<Rightarrow> (Inr (VStr []), st)
                 | l # ls \<Rightarrow> (Inr (VStr l), st\<lparr>inp := ls\<rparr>)))
      | List_ctor \<Rightarrow>
          (if args \<noteq> [] then (Inl TypeError, st)
           else (Inr (VList (length (heap st))), st\<lparr>heap := heap st @ [[]]\<rparr>)))"

fun split_dot :: "string \<Rightarrow> string list" where
  "split_dot [] = [[]]"
| "split_dot (c # cs) =
     (if c = CHR ''.'' then [] # split_dot cs
      else (case split_dot cs of p # ps \<Rightarrow> (c # p) # ps | [] \<Rightarrow> [[c]]))"

definition lookup_var :: "state \<Rightarrow> nat \<Rightarrow> string \<Rightarrow> exn + val" where
  "lookup_var st k name =
     (case (frames st ! k) name of
        Some v \<Rightarrow> Inr v
      | None \<Rightarrow>
          (case (frames st ! 0) name of
             Some v \<Rightarrow> Inr v
           | None \<Rightarrow>
               if CHR ''.'' \<in> set name then
                 (case stdlib (hd (split_dot name)) of
                    None \<Rightarrow> Inl (NameError name)
                  | Some obj \<Rightarrow> getattrs obj (tl (split_dot name)))
               else (case stdlib name of Some v \<Rightarrow> Inr v | None \<Rightarrow> Inl (NameError name))))"

definition bind_params :: "env \<Rightarrow> (string \<times> val) list \<Rightarrow> env" where
  "bind_params globals pairs = fold (\<lambda>(name, v) new_env. new_env(name \<mapsto> v)) pairs globals"

datatype iter = ListIter nat nat | StrIter pystr

definition iter_next :: "state \<Rightarrow> iter \<Rightarrow> (val \<times> iter) option" where
  "iter_next st it =
     (case it of
        ListIter a i \<Rightarrow>
          if i < length (heap st ! a) then Some (heap st ! a ! i, ListIter a (Suc i)) else None
      | StrIter s \<Rightarrow> (case s of [] \<Rightarrow> None | c # cs \<Rightarrow> Some (VStr [c], StrIter cs)))"

definition py_iter :: "val option \<Rightarrow> exn + iter" where
  "py_iter seq =
     (case seq of
        Some (VList a) \<Rightarrow> Inr (ListIter a 0)
      | Some (VStr s) \<Rightarrow> Inr (StrIter s)
      | _ \<Rightarrow> Inl TypeError)"

section \<open>The interpreter\<close>

text \<open>
  \<open>eval_expr\<close>, \<open>exec_block\<close> and \<open>exec_stmt\<close> of \<open>Runtime\<close>.  The environment argument
  \<open>env\<close> of the source is a reference to a dictionary, here the index \<open>k\<close> into \<open>frames\<close>.
  \<open>eval_args\<close> is the list comprehension over \<open>e['args']\<close>, \<open>exec_foreach\<close> the loop
  of \<open>foreach\<close>.  The loops of \<open>while\<close> and \<open>for\<close> run the statement again after one
  round, for \<open>for\<close> without its \<open>init\<close>.

  Each body is first written with the functions it calls as parameters, named as in the
  source.  The functions themselves are then defined by recursion on a bound on the depth
  of the evaluation, since a \<open>while\<close> loop need not end: with the bound used up the
  result is \<open>None\<close>.  The recursion limit of the host is not modelled.
\<close>

type_synonym eval_expr_fn = "nat \<Rightarrow> expr \<Rightarrow> state \<Rightarrow> val result"
type_synonym eval_args_fn = "nat \<Rightarrow> expr list \<Rightarrow> state \<Rightarrow> val list result"
type_synonym exec_block_fn = "nat \<Rightarrow> stmt list \<Rightarrow> state \<Rightarrow> unit result"
type_synonym exec_stmt_fn = "nat \<Rightarrow> stmt \<Rightarrow> state \<Rightarrow> unit result"
type_synonym exec_foreach_fn = "nat \<Rightarrow> string \<Rightarrow> iter \<Rightarrow> stmt \<Rightarrow> state \<Rightarrow> unit result"

definition call_function ::
  "exec_block_fn \<Rightarrow> string list \<times> stmt list \<Rightarrow> val list \<Rightarrow> state \<Rightarrow> val result" where
  "call_function exec_block f args st =
     (case exec_block (length (frames st)) (snd f)
             (st\<lparr>frames := frames st @ [bind_params (frames st ! 0) (zip (fst f) args)]\<rparr>) of
        None \<Rightarrow> None
      | Some (Inl (ReturnSignal v), st') \<Rightarrow> Some (Inr v, st')
      | Some (Inl x, st') \<Rightarrow> Some (Inl x, st')
      | Some (Inr u, st') \<Rightarrow> Some (Inr VNone, st'))"

definition eval_call ::
  "eval_args_fn \<Rightarrow> exec_block_fn \<Rightarrow> nat \<Rightarrow> string \<Rightarrow> expr list \<Rightarrow> state \<Rightarrow> val result" where
  "eval_call eval_args exec_block k callee args st =
     (if CHR ''.'' \<in> set callee \<and> hd (split_dot callee) = ''Console'' then
        (case py_getattr VConsole (split_dot callee ! 1) of
           Inl x \<Rightarrow> Some (Inl x, st)
         | Inr fn \<Rightarrow>
             bind (eval_args k args st) (\<lambda>vs st1.
               (case fn of
                  VBuiltin b \<Rightarrow> Some (call_builtin b vs st1)
                | _ \<Rightarrow> Some (Inl Unmodelled, st1))))
      else if callee = ''List'' then Some (call_builtin List_ctor [] st)
      else
        (case function_table st callee of
           Some f \<Rightarrow> bind (eval_args k args st) (call_function exec_block f)
         | None \<Rightarrow>
             (case (frames st ! k) callee of
                Some (VBuiltin b) \<Rightarrow>
                  bind (eval_args k args st) (\<lambda>vs st1. Some (call_builtin b vs st1))
              | _ \<Rightarrow> Some (Inl (NameError callee), st))))"

definition eval_expr_body ::
  "eval_expr_fn \<Rightarrow> eval_args_fn \<Rightarrow> exec_block_fn \<Rightarrow> eval_expr_fn" where
  "eval_expr_body eval_expr eval_args exec_block k e st =
     (case e of
        ENumber i \<Rightarrow> Some (Inr (VInt i), st)
      | EFloat t \<Rightarrow> Some (Inr (VFloat t), st)
      | EString s \<Rightarrow> Some (Inr (VStr s), st)
      | EBool b \<Rightarrow> Some (Inr (VBool b), st)
      | EVar name \<Rightarrow> Some (lookup_var st k name, st)
      | ECall callee args \<Rightarrow> eval_call eval_args exec_block k callee args st
      | EIndex target index \<Rightarrow>
          bind (eval_expr k (EVar target) st) (\<lambda>tgt st1.
            bind (eval_expr k index st1) (\<lambda>idx st2.
              Some (index_val st2 tgt idx, st2)))
      | EUnary op e1 \<Rightarrow>
          bind (eval_expr k e1 st) (\<lambda>v st1. Some (unary_op st1 op v, st1))
      | EBin op left right \<Rightarrow>
          bind (eval_expr k left st) (\<lambda>l st1.
            bind (eval_expr k right st1) (\<lambda>r st2.
              Some (bin_op st2 op l r, st2))))"

definition eval_args_body :: "eval_expr_fn \<Rightarrow> eval_args_fn \<Rightarrow> eval_args_fn" where
  "eval_args_body eval_expr eval_args k es st =
     (case es of
        [] \<Rightarrow> Some (Inr [], st)
      | a # as \<Rightarrow>
          bind (eval_expr k a st) (\<lambda>v st1.
            bind (eval_args k as st1) (\<lambda>vs st2. Some (Inr (v # vs), st2))))"

definition exec_block_body :: "exec_stmt_fn \<Rightarrow> exec_block_fn \<Rightarrow> exec_block_fn" where
  "exec_block_body exec_stmt exec_block k body st =
     (case body of
        [] \<Rightarrow> Some (Inr (), st)
      | s # ss \<Rightarrow> bind (exec_stmt k s st) (\<lambda>u st1. exec_block k ss st1))"

definition exec_assign :: "eval_expr_fn \<Rightarrow> nat \<Rightarrow> target \<Rightarrow> expr \<Rightarrow> state \<Rightarrow> unit result" where
  "exec_assign eval_expr k tgt value st =
     (case tgt of
        TVar name \<Rightarrow>
          if (frames st ! k) name \<noteq> None then
            bind (eval_expr k value st) (\<lambda>v st1. Some (Inr (), set_var k name v st1))
          else if (frames st ! 0) name \<noteq> None then
            bind (eval_expr k value st) (\<lambda>v st1. Some (Inr (), set_var 0 name v st1))
          else
            bind (eval_expr k value st) (\<lambda>v st1. Some (Inr (), set_var k name v st1))
      | TIndex target index \<Rightarrow>
          bind (eval_expr k (EVar target) st) (\<lambda>arr st1.
            bind (eval_expr k index st1) (\<lambda>idx st2.
              bind (eval_expr k value st2) (\<lambda>v st3.
                Some (store_index arr idx v st3)))))"

definition exec_for ::
  "eval_expr_fn \<Rightarrow> exec_stmt_fn \<Rightarrow> nat \<Rightarrow> for_init option \<Rightarrow> expr option \<Rightarrow> expr option \<Rightarrow>
   stmt \<Rightarrow> state \<Rightarrow> unit result" where
  "exec_for eval_expr exec_stmt k init cond post body st =
     (case init of
        Some (InitDecl ty name i) \<Rightarrow>
          bind (exec_stmt k (VarDecl ty name i) st) (\<lambda>u st1.
            exec_stmt k (For None cond post body) st1)
      | Some (InitExpr e) \<Rightarrow>
          bind (eval_expr k e st) (\<lambda>v st1. exec_stmt k (For None cond post body) st1)
      | None \<Rightarrow>
          bind (case cond of
                  None \<Rightarrow> Some (Inr (VBool True), st)
                | Some c \<Rightarrow> eval_expr k c st) (\<lambda>c st1.
            (case truthy st1 c of
               Inl x \<Rightarrow> Some (Inl x, st1)
             | Inr False \<Rightarrow> Some (Inr (), st1)
             | Inr True \<Rightarrow>
                 bind (exec_stmt k body st1) (\<lambda>u st2.
                   bind (case post of
                           None \<Rightarrow> Some (Inr VNone, st2)
                         | Some p \<Rightarrow> eval_expr k p st2) (\<lambda>v st3.
                     exec_stmt k (For None cond post body) st3)))))"

definition exec_stmt_body ::
  "eval_expr_fn \<Rightarrow> exec_block_fn \<Rightarrow> exec_stmt_fn \<Rightarrow> exec_foreach_fn \<Rightarrow> exec_stmt_fn" where
  "exec_stmt_body eval_expr exec_block exec_stmt exec_foreach k s st =
     (case s of
        Block body \<Rightarrow> exec_block k body st
      | VarDecl ty name init \<Rightarrow>
          (case init of
             None \<Rightarrow> Some (Inr (), set_var k name VNone st)
           | Some e \<Rightarrow>
               bind (eval_expr k e st) (\<lambda>v st1. Some (Inr (), set_var k name v st1)))
      | Assign tgt value \<Rightarrow> exec_assign eval_expr k tgt value st
      | ExprStmt e \<Rightarrow> bind (eval_expr k e st) (\<lambda>v st1. Some (Inr (), st1))
      | If cond then_branch otherwise \<Rightarrow>
          bind (eval_expr k cond st) (\<lambda>c st1.
            (case truthy st1 c of
               Inl x \<Rightarrow> Some (Inl x, st1)
             | Inr True \<Rightarrow> exec_stmt k then_branch st1
             | Inr False \<Rightarrow>
                 (case otherwise of
                    None \<Rightarrow> Some (Inr (), st1)
                  | Some s' \<Rightarrow> exec_stmt k s' st1)))
      | While cond body \<Rightarrow>
          bind (eval_expr k cond st) (\<lambda>c st1.
            (case truthy st1 c of
               Inl x \<Rightarrow> Some (Inl x, st1)
             | Inr False \<Rightarrow> Some (Inr (), st1)
             | Inr True \<Rightarrow>
                 bind (exec_stmt k body st1) (\<lambda>u st2. exec_stmt k (While cond body) st2)))
      | For init cond post body \<Rightarrow> exec_for eval_expr exec_stmt k init cond post body st
      | Foreach name seq body \<Rightarrow>
          (case py_iter (case (frames st ! k) seq of
                           Some v \<Rightarrow> Some v
                         | None \<Rightarrow> (frames st ! 0) seq) of
             Inl x \<Rightarrow> Some (Inl x, st)
           | Inr it \<Rightarrow> exec_foreach k name it body st)
      | Return value \<Rightarrow>
          (case value of
             None \<Rightarrow> Some (Inl (ReturnSignal VNone), st)
           | Some e \<Rightarrow>
               bind (eval_expr k e st) (\<lambda>v st1. Some (Inl (ReturnSignal v), st1)))
      | FuncDecl name params body rettype \<Rightarrow>
          Some (Inr (), st\<lparr>function_table := (function_table st)(name \<mapsto> (params, body))\<rparr>))"

definition exec_foreach_body :: "exec_stmt_fn \<Rightarrow> exec_foreach_fn \<Rightarrow> exec_foreach_fn" where
  "exec_foreach_body exec_stmt exec_foreach k name it body st =
     (case iter_next st it of
        None \<Rightarrow> Some (Inr (), st)
      | Some (v, it') \<Rightarrow>
          bind (exec_stmt k body (set_var k name v st)) (\<lambda>u st1.
            exec_foreach k name it' body st1))"

record interp =
  I_eval_expr :: eval_expr_fn
  I_eval_args :: eval_args_fn
  I_exec_block :: exec_block_fn
  I_exec_stmt :: exec_stmt_fn
  I_exec_foreach :: exec_foreach_fn

primrec interp_upto :: "nat \<Rightarrow> interp" where
  "interp_upto 0 =
     \<lparr>I_eval_expr = (\<lambda>k e st. None), I_eval_args = (\<lambda>k es st. None),
      I_exec_block = (\<lambda>k body st. None), I_exec_stmt = (\<lambda>k s st. None),
      I_exec_foreach = (\<lambda>k name it body st. None)\<rparr>"
| "interp_upto (Suc n) =
     \<lparr>I_eval_expr = eval_expr_body (I_eval_expr (interp_upto n)) (I_eval_args (interp_upto n))
        (I_exec_block (interp_upto n)),
      I_eval_args = eval_args_body (I_eval_expr (interp_upto n)) (I_eval_args (interp_upto n)),
      I_exec_block = exec_block_body (I_exec_stmt (interp_upto n)) (I_exec_block (interp_upto n)),
      I_exec_stmt = exec_stmt_body (I_eval_expr (interp_upto n)) (I_exec_block (interp_upto n))
        (I_exec_stmt (interp_upto n)) (I_exec_foreach (interp_upto n)),
      I_exec_foreach = exec_foreach_body (I_exec_stmt (interp_upto n))
        (I_exec_foreach (interp_upto n))\<rparr>"

definition eval_expr :: "nat \<Rightarrow> eval_expr_fn" where
  "eval_expr n = I_eval_expr (interp_upto n)"

definition eval_args :: "nat \<Rightarrow> eval_args_fn" where
  "eval_args n = I_eval_args (interp_upto n)"

definition exec_block :: "nat \<Rightarrow> exec_block_fn" where
  "exec_block n = I_exec_block (interp_upto n)"

definition exec_stmt :: "nat \<Rightarrow> exec_stmt_fn" where
  "exec_stmt n = I_exec_stmt (interp_upto n)"

definition exec_foreach :: "nat \<Rightarrow> exec_foreach_fn" where
  "exec_foreach n = I_exec_foreach (interp_upto n)"

lemma eval_expr_0 [simp]: "eval_expr 0 k e st = None"
  by (simp add: eval_expr_def)

lemma eval_args_0 [simp]: "eval_args 0 k es st = None"
  by (simp add: eval_args_def)

lemma exec_block_0 [simp]: "exec_block 0 k body st = None"
  by (simp add: exec_block_def)

lemma exec_stmt_0 [simp]: "exec_stmt 0 k s st = None"
  by (simp add: exec_stmt_def)

lemma exec_foreach_0 [simp]: "exec_foreach 0 k name it body st = None"
  by (simp add: exec_foreach_def)

lemma eval_expr_Suc:
  "eval_expr (Suc n) = eval_expr_body (eval_expr n) (eval_args n) (exec_block n)"
  by (simp add: eval_expr_def eval_args_def exec_block_def)

lemma eval_args_Suc: "eval_args (Suc n) = eval_args_body (eval_expr n) (eval_args n)"
  by (simp add: eval_expr_def eval_args_def)

lemma exec_block_Suc: "exec_block (Suc n) = exec_block_body (exec_stmt n) (exec_block n)"
  by (simp add: exec_block_def exec_stmt_def)

lemma exec_stmt_Suc:
  "exec_stmt (Suc n) =
     exec_stmt_body (eval_expr n) (exec_block n) (exec_stmt n) (exec_foreach n)"
  by (simp add: eval_expr_def exec_block_def exec_stmt_def exec_foreach_def)

lemma exec_foreach_Suc:
  "exec_foreach (Suc n) = exec_foreach_body (exec_stmt n) (exec_foreach n)"
  by (simp add: exec_stmt_def exec_foreach_def)

lemma eval_expr_numeral:
  "eval_expr (numeral v) =
     eval_expr_body (eval_expr (pred_numeral v)) (eval_args (pred_numeral v))
       (exec_block (pred_numeral v))"
  by (simp add: numeral_eq_Suc eval_expr_Suc)

lemma eval_args_numeral:
  "eval_args (numeral v) = eval_args_body (eval_expr (pred_numeral v)) (eval_args (pred_numeral v))"
  by (simp add: numeral_eq_Suc eval_args_Suc)

lemma exec_block_numeral:
  "exec_block (numeral v) =
     exec_block_body (exec_stmt (pred_numeral v)) (exec_block (pred_numeral v))"
  by (simp add: numeral_eq_Suc exec_block_Suc)

lemma exec_stmt_numeral:
  "exec_stmt (numeral v) =
     exec_stmt_body (eval_expr (pred_numeral v)) (exec_block (pred_numeral v))
       (exec_stmt (pred_numeral v)) (exec_foreach (pred_numeral v))"
  by (simp add: numeral_eq_Suc exec_stmt_Suc)

lemma exec_foreach_numeral:
  "exec_foreach (numeral v) =
     exec_foreach_body (exec_stmt (pred_numeral v)) (exec_foreach (pred_numeral v))"
  by (simp add: numeral_eq_Suc exec_foreach_Suc)

lemmas interp_numeral =
  eval_expr_numeral eval_args_numeral exec_block_numeral exec_stmt_numeral exec_foreach_numeral

lemmas interp_Suc =
  eval_expr_Suc eval_args_Suc exec_block_Suc exec_stmt_Suc exec_foreach_Suc

section \<open>The parser\<close>

text \<open>
  A \<open>Parser\<close> holds the token list, which it never changes, and the index \<open>i\<close> of the
  next token.  A parsing function takes the index and gives the index it leaves together
  with the node it returns or the exception it raises.  The index is kept with an
  exception because \<open>parse_statement\<close> handles exceptions and parses on from where the
  failed attempt stopped.  Loops and recursion are bounded by \<open>n\<close>; with the bound used up
  the result is \<open>None\<close>.
\<close>

type_synonym 'a parse = "((exn + 'a) \<times> nat) option"

definition pbind :: "'a parse \<Rightarrow> ('a \<Rightarrow> nat \<Rightarrow> 'b parse) \<Rightarrow> 'b parse" where
  "pbind m f =
     (case m of
        None \<Rightarrow> None
      | Some (Inl e, i) \<Rightarrow> Some (Inl e, i)
      | Some (Inr a, i) \<Rightarrow> f a i)"

definition peek :: "token list \<Rightarrow> nat \<Rightarrow> token parse" where
  "peek toks i =
     (if i < length toks then Some (Inr (toks ! i), i) else Some (Inl IndexError, i))"

definition eat :: "token list \<Rightarrow> string option \<Rightarrow> pystr option \<Rightarrow> nat \<Rightarrow> token parse" where
  "eat toks ty v i =
     pbind (peek toks i) (\<lambda>t i.
       if (case ty of Some k \<Rightarrow> k \<noteq> [] \<and> ttype t \<noteq> k | None \<Rightarrow> False)
       then Some (Inl ParseError, i)
       else if (case v of Some w \<Rightarrow> w \<noteq> [] \<and> tval t \<noteq> w | None \<Rightarrow> False)
       then Some (Inl ParseError, i)
       else Some (Inr t, Suc i))"

definition pmatch :: "token list \<Rightarrow> string \<Rightarrow> pystr option \<Rightarrow> nat \<Rightarrow> bool parse" where
  "pmatch toks ty v i =
     pbind (peek toks i) (\<lambda>t i.
       if ttype t = ty \<and> (case v of None \<Rightarrow> True | Some w \<Rightarrow> tval t = w)
       then Some (Inr True, Suc i)
       else Some (Inr False, i))"

subsection \<open>Expressions\<close>

definition PRECEDENCE :: "(pystr \<times> nat) list" where
  "PRECEDENCE =
     [(cps ''||'', 1), (cps ''&&'', 2), (cps ''=='', 3), (cps ''!='', 3),
      (cps ''<'', 4), (cps ''>'', 4), (cps ''<='', 4), (cps ''>='', 4),
      (cps ''+'', 5), (cps ''-'', 5), (cps ''*'', 6), (cps ''/'', 6), (cps ''%'', 6)]"

definition UNARY_OPS :: "pystr list" where
  "UNARY_OPS = [cps ''-'', cps ''!'', cps ''+'']"

text \<open>
  The constructors of the abstract syntax for the operator strings.  They are applied to
  keys of \<open>PRECEDENCE\<close> and to members of \<open>UNARY_OPS\<close> only.
\<close>

definition binop_of :: "pystr \<Rightarrow> binop" where
  "binop_of v =
     (if v = cps ''||'' then Or else if v = cps ''&&'' then And
      else if v = cps ''=='' then Eq else if v = cps ''!='' then Ne
      else if v = cps ''<'' then Lt else if v = cps ''>'' then Gt
      else if v = cps ''<='' then Le else if v = cps ''>='' then Ge
      else if v = cps ''+'' then Add else if v = cps ''-'' then Sub
      else if v = cps ''*'' then Mul else if v = cps ''/'' then Div
      else Mod)"

definition unop_of :: "pystr \<Rightarrow> unop" where
  "unop_of v = (if v = cps ''-'' then Neg else if v = cps ''!'' then Not else Pos)"

definition name_of :: "pystr \<Rightarrow> string" where
  "name_of v = map char_of v"

fun join_dot :: "string list \<Rightarrow> string" where
  "join_dot [] = []"
| "join_dot [part] = part"
| "join_dot (part # parts) = part @ ''.'' @ join_dot parts"

text \<open>
  The \<open>number\<close> node: \<open>float(t.val)\<close> for a lexeme with a decimal point, else
  \<open>int(t.val)\<close>.  The \<open>string\<close> node: the lexeme without its first and last character,
  encoded and decoded; an error of the codec is an exception of the parser.
\<close>

definition number_node :: "pystr \<Rightarrow> exn + expr" where
  "number_node v =
     (if 46 \<in> set v then Inr (EFloat v)
      else if list_all (\<lambda>c. 48 \<le> c \<and> c \<le> 57) v \<and> length v \<le> 4300
      then Inr (ENumber (int (foldl (\<lambda>a c. 10 * a + (c - 48)) 0 v)))
      else Inl Unmodelled)"

definition string_node :: "pystr \<Rightarrow> exn + expr" where
  "string_node v =
     (case string_value v of
        Inl CodecUnmodelled \<Rightarrow> Inl Unmodelled
      | Inl e \<Rightarrow> Inl (CodecError e)
      | Inr s \<Rightarrow> Inr (EString s))"

text \<open>
  Inside \<open>parse_primary\<close> the name \<open>parse_expression\<close> is the function of the module,
  which has the one parameter \<open>p\<close>.  \<open>parse_primary\<close> calls it as \<open>parse_expression()\<close>:
  the host raises \<open>TypeError\<close> for the missing argument before the body runs.
\<close>

definition parse_expression_no_argument :: "nat \<Rightarrow> expr parse" where
  "parse_expression_no_argument i = Some (Inl TypeError, i)"

primrec dotted :: "nat \<Rightarrow> token list \<Rightarrow> string list \<Rightarrow> nat \<Rightarrow> string list parse" where
  "dotted 0 toks parts i = None"
| "dotted (Suc n) toks parts i =
     pbind (pmatch toks ''OP'' (Some (cps ''.'')) i) (\<lambda>m i.
       if m then
         pbind (eat toks (Some ''ID'') None i) (\<lambda>t i.
           dotted n toks (parts @ [name_of (tval t)]) i)
       else Some (Inr parts, i))"

primrec call_args :: "nat \<Rightarrow> token list \<Rightarrow> expr list \<Rightarrow> nat \<Rightarrow> expr list parse" where
  "call_args 0 toks args i = None"
| "call_args (Suc n) toks args i =
     pbind (parse_expression_no_argument i) (\<lambda>a i.
       pbind (pmatch toks ''OP'' (Some (cps '')'')) i) (\<lambda>m i.
         if m then Some (Inr (args @ [a]), i)
         else
           pbind (eat toks (Some ''OP'') (Some (cps '','')) i) (\<lambda>u i.
             call_args n toks (args @ [a]) i)))"

definition parse_primary :: "nat \<Rightarrow> token list \<Rightarrow> nat \<Rightarrow> expr parse" where
  "parse_primary n toks i =
     pbind (peek toks i) (\<lambda>t i.
       if ttype t = ''NUMBER'' then
         pbind (eat toks None None i) (\<lambda>u i. Some (number_node (tval t), i))
       else if ttype t = ''STRING'' then
         pbind (eat toks None None i) (\<lambda>u i. Some (string_node (tval t), i))
       else if ttype t \<in> {''TRUE'', ''FALSE''} then
         pbind (eat toks None None i) (\<lambda>u i. Some (Inr (EBool (ttype t = ''TRUE'')), i))
       else if ttype t = ''ID'' \<or> ttype t \<in> {''CONSOLE'', ''LIST''} then
         pbind (eat toks None None i) (\<lambda>t0 i.
           pbind (dotted n toks [name_of (tval t0)] i) (\<lambda>parts i.
             pbind (pmatch toks ''OP'' (Some (cps ''('')) i) (\<lambda>m i.
               if m then
                 pbind (pmatch toks ''OP'' (Some (cps '')'')) i) (\<lambda>m i.
                   if m then Some (Inr (ECall (join_dot parts) []), i)
                   else
                     pbind (call_args n toks [] i) (\<lambda>args i.
                       Some (Inr (ECall (join_dot parts) args), i)))
               else
                 pbind (pmatch toks ''OP'' (Some (cps ''['')) i) (\<lambda>m i.
                   if m then
                     pbind (parse_expression_no_argument i) (\<lambda>idx i.
                       pbind (eat toks (Some ''OP'') (Some (cps '']'')) i) (\<lambda>u i.
                         Some (Inr (EIndex (join_dot parts) idx), i)))
                   else Some (Inr (EVar (join_dot parts)), i)))))
       else
         pbind (pmatch toks ''OP'' (Some (cps ''('')) i) (\<lambda>m i.
           if m then
             pbind (parse_expression_no_argument i) (\<lambda>e i.
               pbind (eat toks (Some ''OP'') (Some (cps '')'')) i) (\<lambda>u i. Some (Inr e, i)))
           else if ttype t = ''OP'' \<and> tval t \<in> set UNARY_OPS then
             pbind (eat toks (Some ''OP'') None i) (\<lambda>op i.
               pbind (parse_expression_no_argument i) (\<lambda>e i.
                 Some (Inr (EUnary (unop_of (tval op)) e), i)))
           else Some (Inl ParseError, i)))"

primrec parse_unary :: "nat \<Rightarrow> token list \<Rightarrow> nat \<Rightarrow> expr parse" where
  "parse_unary 0 toks i = None"
| "parse_unary (Suc n) toks i =
     pbind (peek toks i) (\<lambda>t i.
       if ttype t = ''OP'' \<and> tval t \<in> set UNARY_OPS then
         pbind (eat toks (Some ''OP'') None i) (\<lambda>op i.
           pbind (parse_unary n toks i) (\<lambda>e i.
             Some (Inr (EUnary (unop_of (tval op)) e), i)))
       else parse_primary n toks i)"

text \<open>
  \<open>parse_binop\<close> is the outer loop of the source function, \<open>binop_right\<close> its inner loop,
  which calls \<open>parse_binop\<close> again while an operator of higher precedence follows.  As
  for the interpreter, the bodies take the functions they call as parameters; \<open>unary\<close> is
  \<open>parse_unary\<close>.
\<close>

type_synonym parse_binop_fn = "nat \<Rightarrow> expr \<Rightarrow> nat \<Rightarrow> expr parse"

definition parse_binop_body ::
  "(nat \<Rightarrow> expr parse) \<Rightarrow> parse_binop_fn \<Rightarrow> parse_binop_fn \<Rightarrow> token list \<Rightarrow> parse_binop_fn" where
  "parse_binop_body unary parse_binop binop_right toks minp left i =
     pbind (peek toks i) (\<lambda>t i.
       case (if ttype t = ''OP'' then map_of PRECEDENCE (tval t) else None) of
         None \<Rightarrow> Some (Inr left, i)
       | Some prec \<Rightarrow>
           if prec < minp then Some (Inr left, i)
           else
             pbind (eat toks (Some ''OP'') None i) (\<lambda>op i.
               pbind (unary i) (\<lambda>right i.
                 pbind (binop_right prec right i) (\<lambda>right i.
                   parse_binop minp (EBin (binop_of (tval op)) left right) i))))"

definition binop_right_body :: "parse_binop_fn \<Rightarrow> parse_binop_fn \<Rightarrow> token list \<Rightarrow> parse_binop_fn" where
  "binop_right_body parse_binop binop_right toks prec right i =
     pbind (peek toks i) (\<lambda>t2 i.
       case (if ttype t2 = ''OP'' then map_of PRECEDENCE (tval t2) else None) of
         None \<Rightarrow> Some (Inr right, i)
       | Some prec2 \<Rightarrow>
           if prec2 > prec then
             pbind (parse_binop prec2 right i) (\<lambda>right i. binop_right prec right i)
           else Some (Inr right, i))"

record binop_parsers =
  P_parse_binop :: parse_binop_fn
  P_binop_right :: parse_binop_fn

primrec binop_upto :: "nat \<Rightarrow> token list \<Rightarrow> binop_parsers" where
  "binop_upto 0 toks =
     \<lparr>P_parse_binop = (\<lambda>minp left i. None), P_binop_right = (\<lambda>prec right i. None)\<rparr>"
| "binop_upto (Suc n) toks =
     \<lparr>P_parse_binop = parse_binop_body (parse_unary n toks) (P_parse_binop (binop_upto n toks))
        (P_binop_right (binop_upto n toks)) toks,
      P_binop_right = binop_right_body (P_parse_binop (binop_upto n toks))
        (P_binop_right (binop_upto n toks)) toks\<rparr>"

definition parse_binop :: "nat \<Rightarrow> token list \<Rightarrow> parse_binop_fn" where
  "parse_binop n toks = P_parse_binop (binop_upto n toks)"

definition binop_right :: "nat \<Rightarrow> token list \<Rightarrow> parse_binop_fn" where
  "binop_right n toks = P_binop_right (binop_upto n toks)"

definition parse_expression :: "nat \<Rightarrow> token list \<Rightarrow> nat \<Rightarrow> expr parse" where
  "parse_expression n toks i =
     pbind (parse_unary n toks i) (\<lambda>left i. parse_binop n toks 1 left i)"

subsection \<open>Statements\<close>

definition decl_starts :: "string list" where
  "decl_starts = [''VAR'', ''INT'', ''FLOAT'', ''STRING'', ''BOOL'', ''LIST'', ''ID'']"

primrec angle :: "nat \<Rightarrow> token list \<Rightarrow> nat \<Rightarrow> unit parse" where
  "angle 0 toks i = None"
| "angle (Suc n) toks i =
     pbind (pmatch toks ''OP'' (Some (cps ''>'')) i) (\<lambda>m i.
       if m then Some (Inr (), i)
       else pbind (eat toks None None i) (\<lambda>u i. angle n toks i))"

text \<open>
  \<open>parse_var_decl\<close> gives the entries \<open>type\<close>, \<open>name\<close> and \<open>init\<close> of the \<open>vardecl\<close> node.
\<close>

definition parse_var_decl :: "nat \<Rightarrow> token list \<Rightarrow> nat \<Rightarrow> (pystr \<times> string \<times> expr option) parse" where
  "parse_var_decl n toks i =
     pbind (pmatch toks ''VAR'' None i) (\<lambda>m i.
       pbind (if m then Some (Inr (cps ''var''), i)
              else
                pbind (peek toks i) (\<lambda>t i.
                  if ttype t \<in> {''INT'', ''FLOAT'', ''STRING'', ''BOOL'', ''LIST'', ''ID''} then
                    pbind (eat toks None None i) (\<lambda>t i.
                      if tval t = cps ''List'' then
                        pbind (pmatch toks ''OP'' (Some (cps ''<'')) i) (\<lambda>m i.
                          if m then pbind (angle n toks i) (\<lambda>u i. Some (Inr (tval t), i))
                          else Some (Inr (tval t), i))
                      else Some (Inr (tval t), i))
                  else Some (Inr (cps ''var''), i))) (\<lambda>ty i.
         pbind (eat toks (Some ''ID'') None i) (\<lambda>name i.
           pbind (pmatch toks ''OP'' (Some (cps ''='')) i) (\<lambda>m i.
             pbind (if m then
                      pbind (parse_expression n toks i) (\<lambda>e i. Some (Inr (Some e), i))
                    else Some (Inr None, i)) (\<lambda>init i.
               pbind (eat toks (Some ''OP'') (Some (cps '';'')) i) (\<lambda>u i.
                 Some (Inr (ty, name_of (tval name), init), i)))))))"

type_synonym parse_statement_fn = "nat \<Rightarrow> stmt parse"
type_synonym block_items_fn = "stmt list \<Rightarrow> nat \<Rightarrow> stmt list parse"

text \<open>
  \<open>block_items\<close> is the loop of \<open>parse_block\<close>; \<open>parse_block\<close> gives the entry \<open>body\<close> of
  the \<open>block\<close> node.
\<close>

definition block_items_body ::
  "parse_statement_fn \<Rightarrow> block_items_fn \<Rightarrow> token list \<Rightarrow> block_items_fn" where
  "block_items_body parse_statement block_items toks items i =
     pbind (pmatch toks ''OP'' (Some (cps ''}'')) i) (\<lambda>m i.
       if m then Some (Inr items, i)
       else pbind (parse_statement i) (\<lambda>s i. block_items (items @ [s]) i))"

definition parse_block :: "block_items_fn \<Rightarrow> token list \<Rightarrow> nat \<Rightarrow> stmt list parse" where
  "parse_block block_items toks i =
     pbind (eat toks (Some ''OP'') (Some (cps ''{'')) i) (\<lambda>u i. block_items [] i)"

definition parse_for :: "nat \<Rightarrow> parse_statement_fn \<Rightarrow> token list \<Rightarrow> nat \<Rightarrow> stmt parse" where
  "parse_for n parse_statement toks i =
     pbind (eat toks (Some ''FOR'') None i) (\<lambda>u i.
     pbind (eat toks (Some ''OP'') (Some (cps ''('')) i) (\<lambda>u i.
     pbind (pmatch toks ''OP'' (Some (cps '';'')) i) (\<lambda>m i.
     pbind (if m then Some (Inr None, i)
            else
              pbind (peek toks i) (\<lambda>t i.
                if ttype t \<in> set decl_starts then
                  (if Suc i < length toks then
                     (if ttype (toks ! Suc i) = ''ID'' then
                        pbind (parse_var_decl n toks i) (\<lambda>(ty, name, init) i.
                          Some (Inr (Some (InitDecl ty name init)), i))
                      else
                        pbind (parse_expression n toks i) (\<lambda>e i.
                          pbind (eat toks (Some ''OP'') (Some (cps '';'')) i) (\<lambda>u i.
                            Some (Inr (Some (InitExpr e)), i))))
                   else Some (Inl IndexError, i))
                else
                  pbind (parse_expression n toks i) (\<lambda>e i.
                    pbind (eat toks (Some ''OP'') (Some (cps '';'')) i) (\<lambda>u i.
                      Some (Inr (Some (InitExpr e)), i))))) (\<lambda>init i.
     pbind (pmatch toks ''OP'' (Some (cps '';'')) i) (\<lambda>m i.
     pbind (if m then Some (Inr None, i)
            else
              pbind (parse_expression n toks i) (\<lambda>e i.
                pbind (eat toks (Some ''OP'') (Some (cps '';'')) i) (\<lambda>u i.
                  Some (Inr (Some e), i)))) (\<lambda>cond i.
     pbind (pmatch toks ''OP'' (Some (cps '')'')) i) (\<lambda>m i.
     pbind (if m then Some (Inr None, i)
            else
              pbind (parse_expression n toks i) (\<lambda>e i.
                pbind (eat toks (Some ''OP'') (Some (cps '')'')) i) (\<lambda>u i.
                  Some (Inr (Some e), i)))) (\<lambda>post i.
     pbind (parse_statement i) (\<lambda>body i.
       Some (Inr (For init cond post body), i))))))))))"

definition parse_foreach :: "parse_statement_fn \<Rightarrow> token list \<Rightarrow> nat \<Rightarrow> stmt parse" where
  "parse_foreach parse_statement toks i =
     pbind (eat toks (Some ''FOREACH'') None i) (\<lambda>u i.
     pbind (eat toks (Some ''OP'') (Some (cps ''('')) i) (\<lambda>u i.
     pbind (peek toks i) (\<lambda>t i.
     pbind (if ttype t \<in> set decl_starts then eat toks None None i else Some (Inr t, i)) (\<lambda>u i.
     pbind (eat toks (Some ''ID'') None i) (\<lambda>name i.
     pbind (eat toks (Some ''IN'') None i) (\<lambda>u i.
     pbind (eat toks (Some ''ID'') None i) (\<lambda>seq i.
     pbind (eat toks (Some ''OP'') (Some (cps '')'')) i) (\<lambda>u i.
     pbind (parse_statement i) (\<lambda>body i.
       Some (Inr (Foreach (name_of (tval name)) (name_of (tval seq)) body), i))))))))))"

definition parse_if :: "nat \<Rightarrow> parse_statement_fn \<Rightarrow> token list \<Rightarrow> nat \<Rightarrow> stmt parse" where
  "parse_if n parse_statement toks i =
     pbind (eat toks (Some ''IF'') None i) (\<lambda>u i.
     pbind (eat toks (Some ''OP'') (Some (cps ''('')) i) (\<lambda>u i.
     pbind (parse_expression n toks i) (\<lambda>cond i.
     pbind (eat toks (Some ''OP'') (Some (cps '')'')) i) (\<lambda>u i.
     pbind (parse_statement i) (\<lambda>then_branch i.
     pbind (pmatch toks ''ELSE'' None i) (\<lambda>m i.
       if m then
         pbind (parse_statement i) (\<lambda>otherwise i.
           Some (Inr (If cond then_branch (Some otherwise)), i))
       else Some (Inr (If cond then_branch None), i)))))))"

definition target_of :: "expr \<Rightarrow> target option" where
  "target_of e =
     (case e of
        EVar name \<Rightarrow> Some (TVar name)
      | EIndex tgt idx \<Rightarrow> Some (TIndex tgt idx)
      | _ \<Rightarrow> None)"

definition parse_stmt_or_expr :: "nat \<Rightarrow> token list \<Rightarrow> nat \<Rightarrow> stmt parse" where
  "parse_stmt_or_expr n toks i =
     pbind (parse_expression n toks i) (\<lambda>e i.
       pbind (case target_of e of
                None \<Rightarrow> Some (Inr None, i)
              | Some tgt \<Rightarrow>
                  pbind (pmatch toks ''OP'' (Some (cps ''='')) i) (\<lambda>m i.
                    Some (Inr (if m then Some tgt else None), i))) (\<lambda>assigned i.
         case assigned of
           Some tgt \<Rightarrow>
             pbind (parse_expression n toks i) (\<lambda>v i.
               pbind (eat toks (Some ''OP'') (Some (cps '';'')) i) (\<lambda>u i.
                 Some (Inr (Assign tgt v), i)))
         | None \<Rightarrow>
             pbind (eat toks (Some ''OP'') (Some (cps '';'')) i) (\<lambda>u i.
               Some (Inr (ExprStmt e), i))))"

primrec params_loop :: "nat \<Rightarrow> token list \<Rightarrow> string list \<Rightarrow> nat \<Rightarrow> string list parse" where
  "params_loop 0 toks params i = None"
| "params_loop (Suc n) toks params i =
     pbind (peek toks i) (\<lambda>t i.
     pbind (if ttype t \<in> set decl_starts then eat toks None None i else Some (Inr t, i)) (\<lambda>u i.
     pbind (eat toks (Some ''ID'') None i) (\<lambda>pid i.
     pbind (pmatch toks ''OP'' (Some (cps '')'')) i) (\<lambda>m i.
       if m then Some (Inr (params @ [name_of (tval pid)]), i)
       else
         pbind (eat toks (Some ''OP'') (Some (cps '','')) i) (\<lambda>u i.
           params_loop n toks (params @ [name_of (tval pid)]) i)))))"

definition parse_function :: "nat \<Rightarrow> block_items_fn \<Rightarrow> token list \<Rightarrow> nat \<Rightarrow> stmt parse" where
  "parse_function n block_items toks i =
     pbind (peek toks i) (\<lambda>t i.
     pbind (if ttype t \<in> set decl_starts then
              pbind (eat toks None None i) (\<lambda>t i. Some (Inr (tval t), i))
            else Some (Inr (cps ''void''), i)) (\<lambda>rettype i.
     pbind (eat toks (Some ''ID'') None i) (\<lambda>name i.
     pbind (eat toks (Some ''OP'') (Some (cps ''('')) i) (\<lambda>u i.
     pbind (pmatch toks ''OP'' (Some (cps '')'')) i) (\<lambda>m i.
     pbind (if m then Some (Inr [], i) else params_loop n toks [] i) (\<lambda>params i.
     pbind (parse_block block_items toks i) (\<lambda>body i.
       Some (Inr (FuncDecl (name_of (tval name)) params body rettype), i))))))))"

text \<open>
  \<open>parse_statement\<close>.  For a token that can start a declaration it looks two tokens
  ahead, inside \<open>try\<close>; when these are a name and an opening parenthesis it returns what
  \<open>parse_function\<close> returns.  Every exception raised inside the \<open>try\<close>, by the look-ahead
  or by \<open>parse_function\<close>, is discarded by \<open>except Exception: pass\<close>, and the statement is
  parsed again as a declaration or an expression statement, starting at the token where
  the exception left the parser.
\<close>

definition var_decl_or_expr :: "nat \<Rightarrow> token list \<Rightarrow> nat \<Rightarrow> stmt parse" where
  "var_decl_or_expr n toks i =
     (if Suc i < length toks then
        (if ttype (toks ! Suc i) = ''ID'' then
           pbind (parse_var_decl n toks i) (\<lambda>(ty, name, init) i.
             Some (Inr (VarDecl ty name init), i))
         else parse_stmt_or_expr n toks i)
      else Some (Inl IndexError, i))"

definition parse_statement_body ::
  "nat \<Rightarrow> parse_statement_fn \<Rightarrow> block_items_fn \<Rightarrow> token list \<Rightarrow> parse_statement_fn" where
  "parse_statement_body n parse_statement block_items toks i =
     pbind (peek toks i) (\<lambda>t i.
       if ttype t = ''OP'' \<and> tval t = cps ''{'' then
         pbind (parse_block block_items toks i) (\<lambda>body i. Some (Inr (Block body), i))
       else if ttype t = ''IF'' then parse_if n parse_statement toks i
       else if ttype t = ''WHILE'' then
         pbind (eat toks (Some ''WHILE'') None i) (\<lambda>u i.
         pbind (eat toks (Some ''OP'') (Some (cps ''('')) i) (\<lambda>u i.
         pbind (parse_expression n toks i) (\<lambda>cond i.
         pbind (eat toks (Some ''OP'') (Some (cps '')'')) i) (\<lambda>u i.
         pbind (parse_statement i) (\<lambda>body i. Some (Inr (While cond body), i))))))
       else if ttype t = ''FOR'' then parse_for n parse_statement toks i
       else if ttype t = ''FOREACH'' then parse_foreach parse_statement toks i
       else if ttype t = ''RETURN'' then
         pbind (eat toks (Some ''RETURN'') None i) (\<lambda>u i.
         pbind (peek toks i) (\<lambda>t1 i.
           if ttype t1 = ''OP'' \<and> tval t1 = cps '';'' then
             pbind (eat toks (Some ''OP'') (Some (cps '';'')) i) (\<lambda>u i.
               Some (Inr (Return None), i))
           else
             pbind (parse_expression n toks i) (\<lambda>v i.
               pbind (eat toks (Some ''OP'') (Some (cps '';'')) i) (\<lambda>u i.
                 Some (Inr (Return (Some v)), i)))))
       else if ttype t \<in> set decl_starts then
         (if i + 2 < length toks \<and> ttype (toks ! (i + 1)) = ''ID'' \<and>
             ttype (toks ! (i + 2)) = ''OP'' \<and> tval (toks ! (i + 2)) = cps ''(''
          then
            (case parse_function n block_items toks i of
               None \<Rightarrow> None
             | Some (Inr f, i1) \<Rightarrow> Some (Inr f, i1)
             | Some (Inl Unmodelled, i1) \<Rightarrow> Some (Inl Unmodelled, i1)
             | Some (Inl e, i1) \<Rightarrow> var_decl_or_expr n toks i1)
          else var_decl_or_expr n toks i)
       else parse_stmt_or_expr n toks i)"

record stmt_parsers =
  P_parse_statement :: parse_statement_fn
  P_block_items :: block_items_fn

primrec stmt_upto :: "nat \<Rightarrow> token list \<Rightarrow> stmt_parsers" where
  "stmt_upto 0 toks = \<lparr>P_parse_statement = (\<lambda>i. None), P_block_items = (\<lambda>items i. None)\<rparr>"
| "stmt_upto (Suc n) toks =
     \<lparr>P_parse_statement = parse_statement_body n (P_parse_statement (stmt_upto n toks))
        (P_block_items (stmt_upto n toks)) toks,
      P_block_items = block_items_body (P_parse_statement (stmt_upto n toks))
        (P_block_items (stmt_upto n toks)) toks\<rparr>"

definition parse_statement :: "nat \<Rightarrow> token list \<Rightarrow> parse_statement_fn" where
  "parse_statement n toks = P_parse_statement (stmt_upto n toks)"

definition block_items :: "nat \<Rightarrow> token list \<Rightarrow> block_items_fn" where
  "block_items n toks = P_block_items (stmt_upto n toks)"

subsection \<open>Programs\<close>

primrec using_dots :: "nat \<Rightarrow> token list \<Rightarrow> nat \<Rightarrow> unit parse" where
  "using_dots 0 toks i = None"
| "using_dots (Suc n) toks i =
     pbind (pmatch toks ''OP'' (Some (cps ''.'')) i) (\<lambda>m i.
       if m then pbind (eat toks (Some ''ID'') None i) (\<lambda>u i. using_dots n toks i)
       else Some (Inr (), i))"

primrec program_items :: "nat \<Rightarrow> token list \<Rightarrow> stmt list \<Rightarrow> nat \<Rightarrow> stmt list parse" where
  "program_items 0 toks items i = None"
| "program_items (Suc n) toks items i =
     pbind (peek toks i) (\<lambda>t i.
       if ttype t = ''EOF'' then Some (Inr items, i)
       else if ttype t = ''USING'' then
         pbind (eat toks (Some ''USING'') None i) (\<lambda>u i.
         pbind (eat toks (Some ''ID'') None i) (\<lambda>u i.
         pbind (using_dots n toks i) (\<lambda>u i.
         pbind (eat toks (Some ''OP'') (Some (cps '';'')) i) (\<lambda>u i.
           program_items n toks items i))))
       else if ttype t = ''NAMESPACE'' then
         pbind (eat toks (Some ''NAMESPACE'') None i) (\<lambda>u i.
         pbind (eat toks (Some ''ID'') None i) (\<lambda>u i.
         pbind (parse_block (block_items n toks) toks i) (\<lambda>body i.
           program_items n toks (items @ [Block body]) i)))
       else
         pbind (parse_statement n toks i) (\<lambda>s i. program_items n toks (items @ [s]) i))"

text \<open>
  \<open>parse_program\<close> gives the entry \<open>body\<close> of the \<open>program\<close> node, or the exception that
  ends the parse.
\<close>

definition parse_program :: "(nat \<Rightarrow> bool) \<Rightarrow> nat \<Rightarrow> pystr \<Rightarrow> (exn + stmt list) option" where
  "parse_program nd n src = map_option fst (program_items n (lex nd src) [] 0)"

subsection \<open>Unfolding the parser\<close>

lemma parse_binop_0 [simp]: "parse_binop 0 toks minp left i = None"
  by (simp add: parse_binop_def)

lemma binop_right_0 [simp]: "binop_right 0 toks prec right i = None"
  by (simp add: binop_right_def)

lemma parse_statement_0 [simp]: "parse_statement 0 toks i = None"
  by (simp add: parse_statement_def)

lemma block_items_0 [simp]: "block_items 0 toks items i = None"
  by (simp add: block_items_def)

lemma parse_binop_Suc:
  "parse_binop (Suc n) toks =
     parse_binop_body (parse_unary n toks) (parse_binop n toks) (binop_right n toks) toks"
  by (simp add: parse_binop_def binop_right_def)

lemma binop_right_Suc:
  "binop_right (Suc n) toks = binop_right_body (parse_binop n toks) (binop_right n toks) toks"
  by (simp add: parse_binop_def binop_right_def)

lemma parse_statement_Suc:
  "parse_statement (Suc n) toks =
     parse_statement_body n (parse_statement n toks) (block_items n toks) toks"
  by (simp add: parse_statement_def block_items_def)

lemma block_items_Suc:
  "block_items (Suc n) toks = block_items_body (parse_statement n toks) (block_items n toks) toks"
  by (simp add: parse_statement_def block_items_def)

lemma dotted_numeral:
  "dotted (numeral k) toks parts i =
     pbind (pmatch toks ''OP'' (Some (cps ''.'')) i) (\<lambda>m i.
       if m then
         pbind (eat toks (Some ''ID'') None i) (\<lambda>t i.
           dotted (pred_numeral k) toks (parts @ [name_of (tval t)]) i)
       else Some (Inr parts, i))"
  by (simp add: numeral_eq_Suc)

lemma call_args_numeral:
  "call_args (numeral k) toks args i =
     pbind (parse_expression_no_argument i) (\<lambda>a i.
       pbind (pmatch toks ''OP'' (Some (cps '')'')) i) (\<lambda>m i.
         if m then Some (Inr (args @ [a]), i)
         else
           pbind (eat toks (Some ''OP'') (Some (cps '','')) i) (\<lambda>u i.
             call_args (pred_numeral k) toks (args @ [a]) i)))"
  by (simp add: numeral_eq_Suc)

lemma parse_unary_numeral:
  "parse_unary (numeral k) toks i =
     pbind (peek toks i) (\<lambda>t i.
       if ttype t = ''OP'' \<and> tval t \<in> set UNARY_OPS then
         pbind (eat toks (Some ''OP'') None i) (\<lambda>op i.
           pbind (parse_unary (pred_numeral k) toks i) (\<lambda>e i.
             Some (Inr (EUnary (unop_of (tval op)) e), i)))
       else parse_primary (pred_numeral k) toks i)"
  by (simp add: numeral_eq_Suc)

lemma parse_binop_numeral:
  "parse_binop (numeral k) toks minp left i =
     parse_binop_body (parse_unary (pred_numeral k) toks) (parse_binop (pred_numeral k) toks)
       (binop_right (pred_numeral k) toks) toks minp left i"
  by (simp add: numeral_eq_Suc parse_binop_Suc)

lemma binop_right_numeral:
  "binop_right (numeral k) toks prec right i =
     binop_right_body (parse_binop (pred_numeral k) toks) (binop_right (pred_numeral k) toks)
       toks prec right i"
  by (simp add: numeral_eq_Suc binop_right_Suc)

lemma angle_numeral:
  "angle (numeral k) toks i =
     pbind (pmatch toks ''OP'' (Some (cps ''>'')) i) (\<lambda>m i.
       if m then Some (Inr (), i)
       else pbind (eat toks None None i) (\<lambda>u i. angle (pred_numeral k) toks i))"
  by (simp add: numeral_eq_Suc)

lemma params_loop_numeral:
  "params_loop (numeral k) toks params i =
     pbind (peek toks i) (\<lambda>t i.
     pbind (if ttype t \<in> set decl_starts then eat toks None None i else Some (Inr t, i)) (\<lambda>u i.
     pbind (eat toks (Some ''ID'') None i) (\<lambda>pid i.
     pbind (pmatch toks ''OP'' (Some (cps '')'')) i) (\<lambda>m i.
       if m then Some (Inr (params @ [name_of (tval pid)]), i)
       else
         pbind (eat toks (Some ''OP'') (Some (cps '','')) i) (\<lambda>u i.
           params_loop (pred_numeral k) toks (params @ [name_of (tval pid)]) i)))))"
  by (simp add: numeral_eq_Suc)

lemma parse_statement_numeral:
  "parse_statement (numeral k) toks i =
     parse_statement_body (pred_numeral k) (parse_statement (pred_numeral k) toks)
       (block_items (pred_numeral k) toks) toks i"
  by (simp add: numeral_eq_Suc parse_statement_Suc)

lemma block_items_numeral:
  "block_items (numeral k) toks items i =
     block_items_body (parse_statement (pred_numeral k) toks) (block_items (pred_numeral k) toks)
       toks items i"
  by (simp add: numeral_eq_Suc block_items_Suc)

lemma using_dots_numeral:
  "using_dots (numeral k) toks i =
     pbind (pmatch toks ''OP'' (Some (cps ''.'')) i) (\<lambda>m i.
       if m then pbind (eat toks (Some ''ID'') None i) (\<lambda>u i. using_dots (pred_numeral k) toks i)
       else Some (Inr (), i))"
  by (simp add: numeral_eq_Suc)

lemma program_items_numeral:
  "program_items (numeral k) toks items i =
     pbind (peek toks i) (\<lambda>t i.
       if ttype t = ''EOF'' then Some (Inr items, i)
       else if ttype t = ''USING'' then
         pbind (eat toks (Some ''USING'') None i) (\<lambda>u i.
         pbind (eat toks (Some ''ID'') None i) (\<lambda>u i.
         pbind (using_dots (pred_numeral k) toks i) (\<lambda>u i.
         pbind (eat toks (Some ''OP'') (Some (cps '';'')) i) (\<lambda>u i.
           program_items (pred_numeral k) toks items i))))
       else if ttype t = ''NAMESPACE'' then
         pbind (eat toks (Some ''NAMESPACE'') None i) (\<lambda>u i.
         pbind (eat toks (Some ''ID'') None i) (\<lambda>u i.
         pbind (parse_block (block_items (pred_numeral k) toks) toks i) (\<lambda>body i.
           program_items (pred_numeral k) toks (items @ [Block body]) i)))
       else
         pbind (parse_statement (pred_numeral k) toks i) (\<lambda>s i.
           program_items (pred_numeral k) toks (items @ [s]) i))"
  by (simp add: numeral_eq_Suc)

lemmas parser_numeral =
  dotted_numeral call_args_numeral parse_unary_numeral parse_binop_numeral binop_right_numeral
  angle_numeral params_loop_numeral parse_statement_numeral block_items_numeral
  using_dots_numeral program_items_numeral

section \<open>Running a program\<close>

text \<open>
  \<open>run_source\<close>.  After \<open>prog = parse_program(src)\<close> both loops over \<open>prog['body']\<close>
  execute in \<open>rt.globals\<close>, the dictionary at index 0; \<open>stdin\<close> holds the lines of standard
  input.  When \<open>parse_program\<close> raises, no \<open>Runtime\<close> has been made and nothing has run:
  the result then carries the exception with the initial state.

  \<open>node(kind, **kw)\<close> takes one positional argument.  A call that passes more raises
  \<open>TypeError\<close> before a node is built; \<open>run_source\<close> passes three when it builds the call
  of \<open>Main\<close>.
\<close>

definition Runtime :: "pystr list \<Rightarrow> state" where
  "Runtime stdin =
     \<lparr>frames = [Map.empty], heap = [], function_table = Map.empty, out = [], inp = stdin\<rparr>"

definition is_func :: "stmt \<Rightarrow> bool" where
  "is_func item = (case item of FuncDecl name params body rettype \<Rightarrow> True | _ \<Rightarrow> False)"

fun exec_items :: "nat \<Rightarrow> stmt list \<Rightarrow> state \<Rightarrow> unit result" where
  "exec_items n [] st = Some (Inr (), st)"
| "exec_items n (item # items) st =
     bind (exec_stmt n 0 item st) (\<lambda>u st1. exec_items n items st1)"

definition node_accepts :: "nat \<Rightarrow> bool" where
  "node_accepts positional \<longleftrightarrow> positional = 1"

definition call_Main :: "nat \<Rightarrow> state \<Rightarrow> val result" where
  "call_Main n st2 =
     (if function_table st2 ''Main'' \<noteq> None then
        (if node_accepts 3 then
           (case exec_stmt n 0 (ExprStmt (ECall ''Main'' [])) st2 of
              None \<Rightarrow> None
            | Some (Inl (ReturnSignal v), st3) \<Rightarrow> Some (Inr v, st3)
            | Some (Inl x, st3) \<Rightarrow> Some (Inl x, st3)
            | Some (Inr u, st3) \<Rightarrow> Some (Inr VNone, st3))
         else Some (Inl TypeError, st2))
      else Some (Inr VNone, st2))"

definition run_program :: "nat \<Rightarrow> stmt list \<Rightarrow> pystr list \<Rightarrow> val result" where
  "run_program n prog stdin =
     bind (exec_items n (filter is_func prog) (Runtime stdin)) (\<lambda>u st1.
       bind (exec_items n (filter (\<lambda>item. \<not> is_func item) prog) st1) (\<lambda>u st2.
         call_Main n st2))"

definition run_source :: "(nat \<Rightarrow> bool) \<Rightarrow> nat \<Rightarrow> pystr \<Rightarrow> pystr list \<Rightarrow> val result" where
  "run_source nd n src stdin =
     (case parse_program nd n src of
        None \<Rightarrow> None
      | Some (Inl e) \<Rightarrow> Some (Inl e, Runtime stdin)
      | Some (Inr prog) \<Rightarrow> run_program n prog stdin)"

section \<open>Properties of the lexer\<close>

definition starts_token :: "(nat \<Rightarrow> bool) \<Rightarrow> nat \<Rightarrow> bool" where
  "starts_token nd c \<longleftrightarrow>
     is_digit nd c \<or> c = 34 \<or> is_id_start c \<or> c \<in> set op_chars \<or> c = 38 \<or> c = 124
     \<or> is_ws c"

definition no_nd :: "nat \<Rightarrow> bool" where
  "no_nd c = False"

lemma op_pairs_start: "take 2 (c # r) \<in> set op_pairs \<Longrightarrow> c \<in> set op_chars \<or> c = 38 \<or> c = 124"
  by (auto simp: op_pairs_def op_chars_def cps_def)

lemma MASTER_no_start: "\<not> starts_token nd c \<Longrightarrow> MASTER nd (c # r) = None"
  using op_pairs_start[of c r]
  by (auto simp: starts_token_def MASTER_def match_NUMBER_def match_STRING_def match_ID_def
      match_OP_def match_WS_def match_COMMENT_def op_chars_def cps_def)

lemma takeWhile_drop_le: "length (takeWhile P (drop n s)) + n \<le> length s \<or> length s < n"
  using length_takeWhile_le[of P "drop n s"] by auto

lemma match_NUMBER_le: "match_NUMBER nd s = Some n \<Longrightarrow> n \<le> length s"
proof -
  assume a: "match_NUMBER nd s = Some n"
  let ?k = "length (takeWhile (is_digit nd) s)"
  have k: "?k \<le> length s" by (rule length_takeWhile_le)
  show ?thesis
  proof (cases "drop ?k s")
    case Nil
    with a k show ?thesis by (auto simp: match_NUMBER_def Let_def split: if_splits)
  next
    case (Cons c r)
    have "length (drop ?k s) = length s - ?k" by simp
    with Cons have r: "Suc (length r) = length s - ?k" by simp
    have "length (takeWhile (is_digit nd) r) \<le> length r" by (rule length_takeWhile_le)
    with a k r Cons show ?thesis
      by (auto simp: match_NUMBER_def Let_def split: if_splits)
  qed
qed

lemma match_STRING_le: "match_STRING s = Some n \<Longrightarrow> n \<le> length s"
  by (auto simp: match_STRING_def split: if_splits list.splits dest: string_body_pos)

lemma match_ID_le: "match_ID s = Some n \<Longrightarrow> n \<le> length s"
  by (auto simp: match_ID_def length_takeWhile_le split: if_splits list.splits)

lemma match_OP_le: "match_OP s = Some n \<Longrightarrow> n \<le> length s"
  by (auto simp: match_OP_def op_pairs_def cps_def split: if_splits list.splits)
     (cases s; cases "tl s"; auto)+

lemma match_WS_le: "match_WS s = Some n \<Longrightarrow> n \<le> length s"
  by (auto simp: match_WS_def Let_def length_takeWhile_le split: if_splits)

lemma match_COMMENT_le: "match_COMMENT s = Some n \<Longrightarrow> n \<le> length s"
proof -
  assume a: "match_COMMENT s = Some n"
  then have t: "take 2 s = [47, 47]" by (auto simp: match_COMMENT_def split: if_splits)
  then have "2 \<le> length s" by (cases s; cases "tl s"; auto)
  moreover have "length (takeWhile (\<lambda>c. c \<noteq> 10) (drop 2 s)) \<le> length s - 2"
    using length_takeWhile_le[of _ "drop 2 s"] by simp
  ultimately show ?thesis using a t by (auto simp: match_COMMENT_def)
qed

lemma MASTER_le: "MASTER nd s = Some (k, n) \<Longrightarrow> n \<le> length s"
  unfolding MASTER_def
  by (cases "match_NUMBER nd s"; cases "match_STRING s"; cases "match_ID s";
      cases "match_OP s"; cases "match_WS s"; cases "match_COMMENT s")
     (auto dest: match_NUMBER_le match_STRING_le match_ID_le match_OP_le match_WS_le
        match_COMMENT_le)

lemma lex_from_EOF: "\<exists>ts. lex_from nd p s = ts @ [Token ''EOF'' [] (p + length s)]"
proof (induction nd p s rule: lex_from.induct)
  case (1 nd p s)
  show ?case
  proof (cases "s = []")
    case True
    then show ?thesis by (simp add: lex_from.simps)
  next
    case False
    show ?thesis
    proof (cases "MASTER nd s")
      case None
      with False 1(1) obtain ts where "lex_from nd (Suc p) (tl s) = ts @ [Token ''EOF'' [] (Suc p + length (tl s))]"
        by blast
      with False None show ?thesis
        by (subst lex_from.simps) (cases s; simp)
    next
      case (Some kn)
      obtain k n where kn: "kn = (k, n)" by (cases kn)
      have n: "0 < n" "n \<le> length s" using Some kn MASTER_pos MASTER_le by blast+
      from 1(2,3)[OF False Some[unfolded kn] refl] 
      obtain ts where ts: "lex_from nd (p + n) (drop n s) = ts @ [Token ''EOF'' [] (p + n + length (drop n s))]"
        by (cases "k = ''WS'' \<or> k = ''COMMENT''") blast+
      have "p + n + length (drop n s) = p + length s" using n by simp
      with ts have ts': "lex_from nd (p + n) (drop n s) = ts @ [Token ''EOF'' [] (p + length s)]"
        by simp
      show ?thesis
      proof (cases "k = ''WS'' \<or> k = ''COMMENT''")
        case True
        with False Some kn ts' show ?thesis by (subst lex_from.simps) simp
      next
        case False
        with \<open>s \<noteq> []\<close> Some kn ts'
        have "lex_from nd p s = (mk_token k (take n s) p # ts) @ [Token ''EOF'' [] (p + length s)]"
          by (subst lex_from.simps) simp
        then show ?thesis by blast
      qed
    qed
  qed
qed

text \<open>
  Claim C4, as amended.  \<open>lex\<close> reports no lexical error on any source string: it
  always returns a token list that ends with the \<open>EOF\<close> token at offset
  \<open>len(src)\<close>.  When the scan stands at a character that starts no number, string,
  identifier, operator, whitespace or comment, that character is skipped without a token
  and the scan goes on with the next character.
\<close>

theorem lex_never_fails:
  "(\<exists>ts. lex nd src = ts @ [Token ''EOF'' [] (length src)]) \<and>
   (\<not> starts_token nd c \<longrightarrow> lex_from nd p (c # r) = lex_from nd (Suc p) r)"
proof
  show "\<exists>ts. lex nd src = ts @ [Token ''EOF'' [] (length src)]"
    using lex_from_EOF[of nd 0 src] by (simp add: lex_def)
  show "\<not> starts_token nd c \<longrightarrow> lex_from nd p (c # r) = lex_from nd (Suc p) r"
    by (auto simp: MASTER_no_start lex_from.simps[of nd p "c # r"])
qed

theorem lex_never_fails_witness:
  "\<not> starts_token no_nd 64 \<and> lex_from no_nd 2 [64, 32, 98] = lex_from no_nd 3 [32, 98]"
  using lex_never_fails[of no_nd "[]" 64 2 "[32, 98]"]
  by (simp add: starts_token_def is_digit_def no_nd_def is_id_start_def is_ws_def op_chars_def
      cps_def)

text \<open>
  Claim C4 as stated fails: the source \<open>a @ b\<close> lexes to the two identifiers and
  \<open>EOF\<close>; the character \<open>@\<close> at offset 2 is dropped and no error is reported.
\<close>

theorem lex_skips_counterexample:
  "lex no_nd [97, 32, 64, 32, 98] =
     [Token ''ID'' [97] 0, Token ''ID'' [98] 4, Token ''EOF'' [] 5]"
  by code_simp

section \<open>Properties of string literals\<close>

lemma utf8_encode_ascii: "\<forall>c\<in>set cs. c < 128 \<Longrightarrow> utf8_encode cs = Inr cs"
  by (induction cs) (auto simp: utf8_encode_cp_def)

lemma escape_spec:
  "d \<notin> set codec_escapes \<Longrightarrow>
   escape d r = Inr (case map_of spec_escapes d of Some x \<Rightarrow> [x] | None \<Rightarrow> [92, d], r)"
  by (auto simp: escape_def codec_escapes_def spec_escapes_def is_octal_def)

lemma decode_plain:
  "plain_escapes cs \<Longrightarrow> unicode_escape_decode cs = Inr (spec_unescape cs)"
proof (induction cs rule: plain_escapes.induct)
  case 1
  then show ?case by simp
next
  case (2 c)
  then show ?case by simp
next
  case (3 c d r)
  show ?case
  proof (cases "c = 92")
    case True
    with 3 have d: "d \<notin> set codec_escapes" and r: "unicode_escape_decode r = Inr (spec_unescape r)"
      by auto
    show ?thesis
    proof (cases "map_of spec_escapes d")
      case None
      then have "d \<noteq> 92" by (auto simp: spec_escapes_def)
      then have "spec_unescape (d # r) = d # spec_unescape r"
        by (cases r) (auto)
      with True None r d show ?thesis
        by (simp add: escape_spec)
    next
      case (Some x)
      with True r d show ?thesis by (simp add: escape_spec)
    qed
  next
    case False
    with 3 show ?thesis by simp
  qed
qed

text \<open>
  Claim C7, as amended.  For a string literal whose contents are ASCII and in which every
  backslash is followed by \<open>n\<close>, \<open>t\<close>, \<open>r\<close>, a backslash, a double quote, or a
  character that the \<open>unicode_escape\<close> codec gives no meaning to, the token value is the
  contents with exactly those five escapes decoded and everything else unchanged.
\<close>

theorem string_value_plain:
  assumes "list_all (\<lambda>c. c < 128) cs" and "plain_escapes cs"
  shows "string_value (34 # cs @ [34]) = Inr (spec_unescape cs)"
  using assms by (simp add: string_value_def utf8_encode_ascii decode_plain list_all_iff)

theorem string_value_plain_witness:
  "list_all (\<lambda>c::nat. c < 128) [97, 92, 110, 92, 113, 92, 92] \<and>
   plain_escapes [97, 92, 110, 92, 113, 92, 92] \<and>
   string_value (34 # [97, 92, 110, 92, 113, 92, 92] @ [34]) = Inr [97, 10, 92, 113, 92]"
  using string_value_plain[of "[97, 92, 110, 92, 113, 92, 92]"]
  by (simp add: codec_escapes_def spec_escapes_def)

text \<open>
  Claim C7 as stated fails twice.  The literal of one character with the one code point
  U+00E9 becomes the two code points U+00C3 U+00A9, since its UTF-8 bytes are decoded one
  byte per character.  The literal \<open>"\x41"\<close> becomes \<open>A\<close>, since the codec decodes
  more escapes than the five of the claim.
\<close>

theorem string_value_counterexample:
  "string_value [34, 233, 34] = Inr [195, 169] \<and> spec_unescape [233] = [233] \<and>
   string_value [34, 92, 120, 52, 49, 34] = Inr [65] \<and>
   spec_unescape [92, 120, 52, 49] = [92, 120, 52, 49]"
  by (simp add: string_value_def utf8_encode_cp_def escape_def is_octal_def hexval_def
      numeral_2_eq_2 spec_escapes_def)

section \<open>Properties of the interpreter\<close>

text \<open>The definitions that a run of the interpreter on a given program unfolds.\<close>

lemmas interp_defs =
  eval_expr_body_def eval_args_body_def exec_block_body_def exec_stmt_body_def
  exec_foreach_body_def eval_call_def call_function_def exec_assign_def exec_for_def
  bind_def set_var_def lookup_var_def stdlib_def py_getattr_def call_builtin_def
  bind_params_def index_val_def store_index_def py_index_def truthy_def as_int_def
  is_float_def is_str_def is_list_def unary_op_def bin_op_def arith_def compare_def py_eq_def
  str_repeat_def py_iter_def iter_next_def

lemmas run_defs = run_program_def call_Main_def is_func_def Runtime_def node_accepts_def

definition st_empty :: state where
  "st_empty = Runtime []"

subsection \<open>The logical operators\<close>

text \<open>
  Claim C2, as amended.  In \<open>a && b\<close> and \<open>a || b\<close> the left operand is evaluated, then
  the right operand is evaluated in the state the left one leaves, whatever the left value
  is; the state after the expression is the state after \<open>b\<close>.  Where both values have a
  truth value, the result is the conjunction or the disjunction of the two.
\<close>

theorem binary_evaluates_both:
  assumes "eval_expr n k a st = Some (Inr l, st1)"
    and "eval_expr n k b st1 = Some (Inr r, st2)"
    and "truthy st2 l = Inr p" and "truthy st2 r = Inr q"
  shows "eval_expr (Suc n) k (EBin And a b) st = Some (Inr (VBool (p \<and> q)), st2) \<and>
         eval_expr (Suc n) k (EBin Or a b) st = Some (Inr (VBool (p \<or> q)), st2)"
  using assms by (cases p; simp add: eval_expr_Suc eval_expr_body_def bind_def bin_op_def)

theorem binary_evaluates_both_witness:
  "eval_expr 3 0 (EBool False) st_empty = Some (Inr (VBool False), st_empty) \<and>
   eval_expr 3 0 (ECall ''Console.WriteLine'' [EString [120]]) st_empty =
     Some (Inr VNone, st_empty\<lparr>out := [[VStr [120]]]\<rparr>) \<and>
   eval_expr 4 0 (EBin And (EBool False) (ECall ''Console.WriteLine'' [EString [120]])) st_empty =
     Some (Inr (VBool False), st_empty\<lparr>out := [[VStr [120]]]\<rparr>)"
proof -
  have a: "eval_expr 3 0 (EBool False) st_empty = Some (Inr (VBool False), st_empty)"
    by (simp add: interp_numeral interp_defs)
  have b: "eval_expr 3 0 (ECall ''Console.WriteLine'' [EString [120]]) st_empty =
     Some (Inr VNone, st_empty\<lparr>out := [[VStr [120]]]\<rparr>)"
    by (simp add: interp_numeral interp_Suc interp_defs st_empty_def Runtime_def)
  have "eval_expr (Suc 3) 0 (EBin And (EBool False) (ECall ''Console.WriteLine'' [EString [120]])) st_empty =
     Some (Inr (VBool (False \<and> False)), st_empty\<lparr>out := [[VStr [120]]]\<rparr>)"
    using binary_evaluates_both[OF a b, of False False] by (simp add: truthy_def)
  then have "eval_expr 4 0 (EBin And (EBool False) (ECall ''Console.WriteLine'' [EString [120]])) st_empty =
     Some (Inr (VBool False), st_empty\<lparr>out := [[VStr [120]]]\<rparr>)"
    by (simp add: eval_nat_numeral)
  with a b show ?thesis by simp
qed

text \<open>
  Claim C2 as stated fails: in \<open>false && Console.WriteLine("x")\<close> the left operand is
  falsy and the right operand still prints.
\<close>

theorem short_circuit_counterexample:
  "eval_expr 4 0 (EBin And (EBool False) (ECall ''Console.WriteLine'' [EString [120]]))
     (Runtime []) = Some (Inr (VBool False), (Runtime [])\<lparr>out := [[VStr [120]]]\<rparr>)"
  by (simp add: Runtime_def interp_numeral interp_Suc interp_defs)

subsection \<open>Sequencing\<close>

lemma bindE:
  assumes "bind m f = Some (r, st')"
  obtains (raised) e where "m = Some (Inl e, st')" and "r = Inl e"
  | (returned) a st1 where "m = Some (Inr a, st1)" and "f a st1 = Some (r, st')"
  using assms by (auto simp: bind_def split: option.splits sum.splits prod.splits)

lemma eval_expr_pos: "eval_expr n k e st = Some r \<Longrightarrow> \<exists>m. n = Suc m"
  by (cases n) auto

section \<open>Properties of whole programs\<close>

text \<open>
  A program is run from its text: \<open>lex\<close>, \<open>parse_program\<close>, then the two loops of
  \<open>run_source\<close>.  The lemmas \<open>lex_\<close> and \<open>parse_\<close> below give the tokens and the syntax
  tree of each program used; the literals of the token patterns stay folded as \<open>cps\<close> of
  their text.
\<close>

lemma cps_inject: "(cps s = cps t) = (s = t)"
  by (simp add: cps_def inj_on_def inj_map_eq_map)

lemma cps_Nil: "(cps s = []) = (s = [])" "([] = cps s) = (s = [])"
  by (auto simp: cps_def)

lemma cps_Cons:
  "(c # v = cps s) = (case s of [] \<Rightarrow> False | x # xs \<Rightarrow> c = of_char x \<and> v = cps xs)"
  by (cases s) (auto simp: cps_def)

lemma name_of_cps: "name_of (cps s) = s"
  by (simp add: name_of_def cps_def comp_def)

lemmas parser_defs =
  pbind_def peek_def eat_def pmatch_def PRECEDENCE_def UNARY_OPS_def
  binop_of_def unop_of_def number_node_def string_node_def
  parse_expression_no_argument_def parse_primary_def parse_binop_body_def binop_right_body_def
  parse_expression_def decl_starts_def parse_var_decl_def block_items_body_def parse_block_def
  parse_for_def parse_foreach_def parse_if_def target_of_def parse_stmt_or_expr_def
  parse_function_def var_decl_or_expr_def parse_statement_body_def Token_def
  cps_inject cps_Nil cps_Cons name_of_cps

subsection \<open>The entry point\<close>

lemma lex_Main:
  "lex no_nd (cps ''int Main() { return 7; }'') =
     [Token ''INT'' (cps ''int'') 0, Token ''ID'' (cps ''Main'') 4, Token ''OP'' (cps ''('') 8,
      Token ''OP'' (cps '')'') 9, Token ''OP'' (cps ''{'') 11,
      Token ''RETURN'' (cps ''return'') 13, Token ''NUMBER'' [55] 20,
      Token ''OP'' (cps '';'') 21, Token ''OP'' (cps ''}'') 23, Token ''EOF'' [] 24]"
  by code_simp

lemma parse_Main:
  "parse_program no_nd 12 (cps ''int Main() { return 7; }'') =
     Some (Inr [FuncDecl ''Main'' [] [Return (Some (ENumber 7))] (cps ''int'')])"
  unfolding parse_program_def lex_Main
  by (simp add: parser_numeral parser_defs)

text \<open>
  Claim C1 at the program \<open>int Main() { return 7; }\<close>.  The claim has \<open>Main\<close> called
  and 7 as the result of the program.  \<open>run_source\<close> registers \<open>Main\<close> and then raises
  \<open>TypeError\<close> while it builds the call node, so \<open>Main\<close> is never called and there is no
  result.
\<close>

theorem run_source_Main_raises:
  "run_source no_nd 12 (cps ''int Main() { return 7; }'') [] =
     Some (Inl TypeError,
       \<lparr>frames = [Map.empty], heap = [],
        function_table = [''Main'' \<mapsto> ([], [Return (Some (ENumber 7))])],
        out = [], inp = []\<rparr>)"
  unfolding run_source_def parse_Main
  by (simp add: run_defs interp_numeral interp_Suc interp_defs)

subsection \<open>Member calls on sequences\<close>

lemma lex_size:
  "lex no_nd (cps ''var xs = List(); xs.size();'') =
     [Token ''VAR'' (cps ''var'') 0, Token ''ID'' (cps ''xs'') 4, Token ''OP'' (cps ''='') 7,
      Token ''LIST'' (cps ''List'') 9, Token ''OP'' (cps ''('') 13, Token ''OP'' (cps '')'') 14,
      Token ''OP'' (cps '';'') 15, Token ''ID'' (cps ''xs'') 17, Token ''OP'' (cps ''.'') 19,
      Token ''ID'' (cps ''size'') 20, Token ''OP'' (cps ''('') 24, Token ''OP'' (cps '')'') 25,
      Token ''OP'' (cps '';'') 26, Token ''EOF'' [] 27]"
  by code_simp

lemma parse_size:
  "parse_program no_nd 12 (cps ''var xs = List(); xs.size();'') =
     Some (Inr [VarDecl (cps ''var'') ''xs'' (Some (ECall ''List'' [])),
      ExprStmt (ECall ''xs.size'' [])])"
  unfolding parse_program_def lex_size
  by (simp add: parser_numeral parser_defs)

lemma lex_add:
  "lex no_nd (cps ''var xs = List(); xs.add(10);'') =
     [Token ''VAR'' (cps ''var'') 0, Token ''ID'' (cps ''xs'') 4, Token ''OP'' (cps ''='') 7,
      Token ''LIST'' (cps ''List'') 9, Token ''OP'' (cps ''('') 13, Token ''OP'' (cps '')'') 14,
      Token ''OP'' (cps '';'') 15, Token ''ID'' (cps ''xs'') 17, Token ''OP'' (cps ''.'') 19,
      Token ''ID'' (cps ''add'') 20, Token ''OP'' (cps ''('') 23, Token ''NUMBER'' [49, 48] 24,
      Token ''OP'' (cps '')'') 26, Token ''OP'' (cps '';'') 27, Token ''EOF'' [] 28]"
  by code_simp

lemma parse_add:
  "parse_program no_nd 12 (cps ''var xs = List(); xs.add(10);'') =
     Some (Inl TypeError)"
  unfolding parse_program_def lex_add
  by (simp add: parser_numeral parser_defs)

lemma lex_push_back:
  "lex no_nd (cps ''var xs = List(); xs.push_back(10);'') =
     [Token ''VAR'' (cps ''var'') 0, Token ''ID'' (cps ''xs'') 4, Token ''OP'' (cps ''='') 7,
      Token ''LIST'' (cps ''List'') 9, Token ''OP'' (cps ''('') 13, Token ''OP'' (cps '')'') 14,
      Token ''OP'' (cps '';'') 15, Token ''ID'' (cps ''xs'') 17, Token ''OP'' (cps ''.'') 19,
      Token ''ID'' (cps ''push_back'') 20, Token ''OP'' (cps ''('') 29,
      Token ''NUMBER'' [49, 48] 30, Token ''OP'' (cps '')'') 32, Token ''OP'' (cps '';'') 33,
      Token ''EOF'' [] 34]"
  by code_simp

lemma parse_push_back:
  "parse_program no_nd 12 (cps ''var xs = List(); xs.push_back(10);'') =
     Some (Inl TypeError)"
  unfolding parse_program_def lex_push_back
  by (simp add: parser_numeral parser_defs)

text \<open>
  Claim C3 at the programs \<open>var xs = List(); xs.size();\<close>,
  \<open>var xs = List(); xs.add(10);\<close> and \<open>var xs = List(); xs.push_back(10);\<close>.  The claim
  has \<open>size()\<close> return the length and \<open>add(x)\<close>, \<open>push_back(x)\<close> append.  In the first
  program the callee \<open>xs.size\<close> is a dotted name whose first segment is not \<open>Console\<close>,
  it is neither \<open>List\<close> nor a registered function nor a key of the environment, and the
  call raises \<open>NameError\<close>: the methods of \<open>CSList\<close> are never reached.  The other two
  programs do not parse: a call with an argument makes \<open>parse_primary\<close> raise
  \<open>TypeError\<close>, and nothing runs.
\<close>

theorem sequence_methods_unreachable:
  "run_source no_nd 12 (cps ''var xs = List(); xs.size();'') [] =
     Some (Inl (NameError ''xs.size''),
       \<lparr>frames = [[''xs'' \<mapsto> VList 0]], heap = [[]], function_table = Map.empty,
        out = [], inp = []\<rparr>) \<and>
   run_source no_nd 12 (cps ''var xs = List(); xs.add(10);'') [] =
     Some (Inl TypeError, Runtime []) \<and>
   run_source no_nd 12 (cps ''var xs = List(); xs.push_back(10);'') [] =
     Some (Inl TypeError, Runtime [])"
  unfolding run_source_def parse_size parse_add parse_push_back
  by (simp add: run_defs interp_numeral interp_Suc interp_defs)

subsection \<open>Calls of user functions\<close>













subsection \<open>Indexing\<close>

lemma lex_index_read:
  "lex no_nd (cps ''var xs = Console.__dir__(); xs[0];'') =
     [Token ''VAR'' (cps ''var'') 0, Token ''ID'' (cps ''xs'') 4, Token ''OP'' (cps ''='') 7,
      Token ''ID'' (cps ''Console'') 9, Token ''OP'' (cps ''.'') 16,
      Token ''ID'' (cps ''__dir__'') 17, Token ''OP'' (cps ''('') 24,
      Token ''OP'' (cps '')'') 25, Token ''OP'' (cps '';'') 26, Token ''ID'' (cps ''xs'') 28,
      Token ''OP'' (cps ''['') 30, Token ''NUMBER'' [48] 31, Token ''OP'' (cps '']'') 32,
      Token ''OP'' (cps '';'') 33, Token ''EOF'' [] 34]"
  by code_simp

lemma parse_index_read:
  "parse_program no_nd 12 (cps ''var xs = Console.__dir__(); xs[0];'') =
     Some (Inl TypeError)"
  unfolding parse_program_def lex_index_read
  by (simp add: parser_numeral parser_defs)

lemma lex_index_write:
  "lex no_nd (cps ''var xs = Console.__dir__(); xs[0] = 1;'') =
     [Token ''VAR'' (cps ''var'') 0, Token ''ID'' (cps ''xs'') 4, Token ''OP'' (cps ''='') 7,
      Token ''ID'' (cps ''Console'') 9, Token ''OP'' (cps ''.'') 16,
      Token ''ID'' (cps ''__dir__'') 17, Token ''OP'' (cps ''('') 24,
      Token ''OP'' (cps '')'') 25, Token ''OP'' (cps '';'') 26, Token ''ID'' (cps ''xs'') 28,
      Token ''OP'' (cps ''['') 30, Token ''NUMBER'' [48] 31, Token ''OP'' (cps '']'') 32,
      Token ''OP'' (cps ''='') 34, Token ''NUMBER'' [49] 36, Token ''OP'' (cps '';'') 37,
      Token ''EOF'' [] 38]"
  by code_simp

lemma parse_index_write:
  "parse_program no_nd 12 (cps ''var xs = Console.__dir__(); xs[0] = 1;'') =
     Some (Inl TypeError)"
  unfolding parse_program_def lex_index_write
  by (simp add: parser_numeral parser_defs)

text \<open>
  Claim C6 at the programs \<open>var xs = Console.__dir__(); xs[0];\<close> and
  \<open>var xs = Console.__dir__(); xs[0] = 1;\<close>, where \<open>xs\<close> would be a non-empty list of
  the host and 0 an index in its range.  The claim has the read and the index-assignment
  succeed.  Neither program parses: after the opening bracket \<open>parse_primary\<close> calls
  \<open>parse_expression()\<close> without its argument, which raises \<open>TypeError\<close>.  Nothing runs,
  and the branches of \<open>eval_expr\<close> and \<open>exec_stmt\<close> for indexing are never reached.
\<close>

theorem index_never_parses:
  "run_source no_nd 12 (cps ''var xs = Console.__dir__(); xs[0];'') [] =
     Some (Inl TypeError, Runtime []) \<and>
   run_source no_nd 12 (cps ''var xs = Console.__dir__(); xs[0] = 1;'') [] =
     Some (Inl TypeError, Runtime [])"
  unfolding run_source_def parse_index_read parse_index_write
  by simp

subsection \<open>The function table only grows\<close>

definition ft_le :: "state \<Rightarrow> state \<Rightarrow> bool" where
  "ft_le st st' \<longleftrightarrow> dom (function_table st) \<subseteq> dom (function_table st')"

lemma ft_le_refl [simp]: "ft_le st st"
  by (simp add: ft_le_def)

lemma ft_le_trans: "ft_le a b \<Longrightarrow> ft_le b c \<Longrightarrow> ft_le a c"
  by (auto simp: ft_le_def)

lemma ft_le_same: "function_table st' = function_table st \<Longrightarrow> ft_le st st'"
  by (simp add: ft_le_def)

lemma ft_le_call_builtin: "call_builtin b vs st = (r, st') \<Longrightarrow> ft_le st st'"
  by (auto simp: call_builtin_def ft_le_def split: builtin.splits if_splits list.splits)

lemma ft_le_store_index: "store_index arr idx v st = (r, st') \<Longrightarrow> ft_le st st'"
  by (auto simp: store_index_def ft_le_def split: val.splits option.splits if_splits)

lemma ft_le_set_var [simp]: "ft_le st (set_var k x v st)"
  by (simp add: set_var_def ft_le_def)

lemma eval_args_body_ft:
  assumes ev: "\<And>k e st r st'. ev k e st = Some (r, st') \<Longrightarrow> ft_le st st'"
    and ea: "\<And>k es st r st'. ea k es st = Some (r, st') \<Longrightarrow> ft_le st st'"
    and "eval_args_body ev ea k es st = Some (r, st')"
  shows "ft_le st st'"
  using assms(3)
  by (auto simp: eval_args_body_def split: list.splits elim!: bindE dest!: ev ea
      intro: ft_le_trans)

lemma call_function_ft:
  assumes xb: "\<And>k b st r st'. xb k b st = Some (r, st') \<Longrightarrow> ft_le st st'"
    and "call_function xb f vs st = Some (r, st')"
  shows "ft_le st st'"
proof -
  let ?st2 = "st\<lparr>frames := frames st @ [bind_params (frames st ! 0) (zip (fst f) vs)]\<rparr>"
  from assms(2) obtain r2 where "xb (length (frames st)) (snd f) ?st2 = Some (r2, st')"
    by (auto simp: call_function_def split: option.splits sum.splits exn.splits)
  from xb[OF this] show ?thesis by (simp add: ft_le_def)
qed

lemma eval_call_ft:
  assumes ea: "\<And>k es st r st'. ea k es st = Some (r, st') \<Longrightarrow> ft_le st st'"
    and xb: "\<And>k b st r st'. xb k b st = Some (r, st') \<Longrightarrow> ft_le st st'"
    and "eval_call ea xb k callee args st = Some (r, st')"
  shows "ft_le st st'"
proof -
  have cf: "\<And>f vs st r st'. call_function xb f vs st = Some (r, st') \<Longrightarrow> ft_le st st'"
    using call_function_ft[of xb] xb by blast
  show ?thesis
    using assms(3)
    by (auto simp: eval_call_def split: if_splits sum.splits option.splits val.splits
        elim!: bindE dest!: ea cf ft_le_call_builtin intro: ft_le_trans)
qed

lemma eval_expr_body_ft:
  assumes ev: "\<And>k e st r st'. ev k e st = Some (r, st') \<Longrightarrow> ft_le st st'"
    and ea: "\<And>k es st r st'. ea k es st = Some (r, st') \<Longrightarrow> ft_le st st'"
    and xb: "\<And>k b st r st'. xb k b st = Some (r, st') \<Longrightarrow> ft_le st st'"
    and "eval_expr_body ev ea xb k e st = Some (r, st')"
  shows "ft_le st st'"
proof -
  have ec: "\<And>k c as st r st'. eval_call ea xb k c as st = Some (r, st') \<Longrightarrow> ft_le st st'"
    using eval_call_ft[of ea xb] ea xb by blast
  show ?thesis
    using assms(4)
    by (cases e)
       (auto simp: eval_expr_body_def elim!: bindE dest!: ev ec intro: ft_le_trans)
qed

lemma exec_block_body_ft:
  assumes xs: "\<And>k s st r st'. xs k s st = Some (r, st') \<Longrightarrow> ft_le st st'"
    and xb: "\<And>k b st r st'. xb k b st = Some (r, st') \<Longrightarrow> ft_le st st'"
    and "exec_block_body xs xb k body st = Some (r, st')"
  shows "ft_le st st'"
  using assms(3)
  by (auto simp: exec_block_body_def split: list.splits elim!: bindE dest!: xs xb
      intro: ft_le_trans)

lemma exec_assign_ft:
  assumes ev: "\<And>k e st r st'. ev k e st = Some (r, st') \<Longrightarrow> ft_le st st'"
    and "exec_assign ev k tgt value st = Some (r, st')"
  shows "ft_le st st'"
  using assms(2)
  by (cases tgt)
     (auto simp: exec_assign_def split: if_splits elim!: bindE
       dest!: ev ft_le_store_index intro: ft_le_trans ft_le_trans[OF _ ft_le_set_var])

lemma exec_for_ft:
  assumes ev: "\<And>k e st r st'. ev k e st = Some (r, st') \<Longrightarrow> ft_le st st'"
    and xs: "\<And>k s st r st'. xs k s st = Some (r, st') \<Longrightarrow> ft_le st st'"
    and "exec_for ev xs k init cond post body st = Some (r, st')"
  shows "ft_le st st'"
  using assms(3)
  apply (auto simp: exec_for_def split: option.splits for_init.splits sum.splits bool.splits
      elim!: bindE dest!: ev xs)
  apply (blast intro: ft_le_trans)+
  done

lemma exec_foreach_body_ft:
  assumes xs: "\<And>k s st r st'. xs k s st = Some (r, st') \<Longrightarrow> ft_le st st'"
    and xf: "\<And>k nm it b st r st'. xf k nm it b st = Some (r, st') \<Longrightarrow> ft_le st st'"
    and "exec_foreach_body xs xf k name it body st = Some (r, st')"
  shows "ft_le st st'"
  using assms(3)
  by (auto simp: exec_foreach_body_def split: option.splits elim!: bindE dest!: xs xf
      intro: ft_le_trans ft_le_trans[OF ft_le_set_var])

lemma exec_stmt_body_ft:
  assumes ev: "\<And>k e st r st'. ev k e st = Some (r, st') \<Longrightarrow> ft_le st st'"
    and xb: "\<And>k b st r st'. xb k b st = Some (r, st') \<Longrightarrow> ft_le st st'"
    and xs: "\<And>k s st r st'. xs k s st = Some (r, st') \<Longrightarrow> ft_le st st'"
    and xf: "\<And>k nm it b st r st'. xf k nm it b st = Some (r, st') \<Longrightarrow> ft_le st st'"
    and "exec_stmt_body ev xb xs xf k s st = Some (r, st')"
  shows "ft_le st st'"
proof -
  have xa: "\<And>k t v st r st'. exec_assign ev k t v st = Some (r, st') \<Longrightarrow> ft_le st st'"
    using exec_assign_ft[of ev] ev by blast
  have xfor: "\<And>k i c p b st r st'. exec_for ev xs k i c p b st = Some (r, st') \<Longrightarrow> ft_le st st'"
    using exec_for_ft[of ev xs] ev xs by blast
  show ?thesis
  proof (cases s)
    case (FuncDecl name params body rettype)
    with assms(5) show ?thesis by (auto simp: exec_stmt_body_def ft_le_def)
  next
    case (While cond body)
    with assms(5) show ?thesis
      apply (auto simp: exec_stmt_body_def split: sum.splits bool.splits elim!: bindE
          dest!: ev xs)
      apply (blast intro: ft_le_trans)+
      done
  qed (use assms(5) in \<open>auto simp: exec_stmt_body_def
        split: option.splits sum.splits bool.splits elim!: bindE
        dest!: ev xb xs xf xa xfor
        intro: ft_le_trans ft_le_trans[OF _ ft_le_set_var]\<close>)
qed

lemma interp_ft:
  "(\<forall>k e st r st'. eval_expr n k e st = Some (r, st') \<longrightarrow> ft_le st st') \<and>
   (\<forall>k es st r st'. eval_args n k es st = Some (r, st') \<longrightarrow> ft_le st st') \<and>
   (\<forall>k b st r st'. exec_block n k b st = Some (r, st') \<longrightarrow> ft_le st st') \<and>
   (\<forall>k s st r st'. exec_stmt n k s st = Some (r, st') \<longrightarrow> ft_le st st') \<and>
   (\<forall>k nm it b st r st'. exec_foreach n k nm it b st = Some (r, st') \<longrightarrow> ft_le st st')"
proof (induction n)
  case 0
  then show ?case by simp
next
  case (Suc n)
  from Suc have ev: "\<And>k e st r st'. eval_expr n k e st = Some (r, st') \<Longrightarrow> ft_le st st'"
    by simp
  from Suc have ea: "\<And>k es st r st'. eval_args n k es st = Some (r, st') \<Longrightarrow> ft_le st st'"
    by simp
  from Suc have xb: "\<And>k b st r st'. exec_block n k b st = Some (r, st') \<Longrightarrow> ft_le st st'"
    by simp
  from Suc have xs: "\<And>k s st r st'. exec_stmt n k s st = Some (r, st') \<Longrightarrow> ft_le st st'"
    by simp
  from Suc have xf: "\<And>k nm it b st r st'. exec_foreach n k nm it b st = Some (r, st') \<Longrightarrow> ft_le st st'"
    by simp
  show ?case
    unfolding interp_Suc
  proof (intro conjI allI impI)
    fix k e st r st'
    assume h: "eval_expr_body (eval_expr n) (eval_args n) (exec_block n) k e st = Some (r, st')"
    show "ft_le st st'"
      by (rule eval_expr_body_ft[OF _ _ _ h]) (erule ev ea xb)+
  next
    fix k es st r st'
    assume h: "eval_args_body (eval_expr n) (eval_args n) k es st = Some (r, st')"
    show "ft_le st st'"
      by (rule eval_args_body_ft[OF _ _ h]) (erule ev ea)+
  next
    fix k b st r st'
    assume h: "exec_block_body (exec_stmt n) (exec_block n) k b st = Some (r, st')"
    show "ft_le st st'"
      by (rule exec_block_body_ft[OF _ _ h]) (erule xs xb)+
  next
    fix k s st r st'
    assume h: "exec_stmt_body (eval_expr n) (exec_block n) (exec_stmt n) (exec_foreach n) k s st
                 = Some (r, st')"
    show "ft_le st st'"
      by (rule exec_stmt_body_ft[OF _ _ _ _ h]) (erule ev xb xs xf)+
  next
    fix k nm it b st r st'
    assume h: "exec_foreach_body (exec_stmt n) (exec_foreach n) k nm it b st = Some (r, st')"
    show "ft_le st st'"
      by (rule exec_foreach_body_ft[OF _ _ h]) (erule xs xf)+
  qed
qed

lemma exec_stmt_ft: "exec_stmt n k s st = Some (r, st') \<Longrightarrow> ft_le st st'"
  using interp_ft[of n] by blast

lemma exec_items_ft: "exec_items n items st = Some (r, st') \<Longrightarrow> ft_le st st'"
  by (induction items arbitrary: st)
     (auto elim!: bindE dest!: exec_stmt_ft intro: ft_le_trans)

subsection \<open>Hoisting\<close>

lemma exec_stmt_FuncDecl:
  "exec_stmt n k (FuncDecl f params body rt) st = Some (r, st') \<Longrightarrow>
   function_table st' f = Some (params, body)"
  by (cases n) (auto simp: exec_stmt_Suc exec_stmt_body_def)

lemma ft_le_registered: "ft_le st st' \<Longrightarrow> function_table st f \<noteq> None \<Longrightarrow> function_table st' f \<noteq> None"
  by (auto simp: ft_le_def)

lemma phase_a_registers:
  "FuncDecl f params body rt \<in> set items \<Longrightarrow>
   exec_items n (filter is_func items) st = Some (Inr (), st1) \<Longrightarrow>
   function_table st1 f \<noteq> None"
proof (induction items arbitrary: st)
  case Nil
  then show ?case by simp
next
  case (Cons item items)
  show ?case
  proof (cases "is_func item")
    case False
    with Cons show ?thesis by (auto simp: is_func_def)
  next
    case True
    with Cons.prems(2)
    have b: "bind (exec_stmt n 0 item st) (\<lambda>u st1. exec_items n (filter is_func items) st1)
               = Some (Inr (), st1)"
      by simp
    then show ?thesis
    proof (cases rule: bindE)
      case (raised e)
      then show ?thesis by simp
    next
      case (returned u st2)
      show ?thesis
      proof (cases "item = FuncDecl f params body rt")
        case True
        with returned(1) have "function_table st2 f \<noteq> None"
          by (auto dest: exec_stmt_FuncDecl)
        with exec_items_ft[OF returned(2)] show ?thesis by (rule ft_le_registered)
      next
        case False
        with Cons.prems(1) have "FuncDecl f params body rt \<in> set items" by simp
        from Cons.IH[OF this returned(2)] show ?thesis .
      qed
    qed
  qed
qed

lemma exec_items_funcs:
  "list_all is_func fs \<Longrightarrow> \<exists>st1. exec_items (Suc m) fs st = Some (Inr (), st1)"
proof (induction fs arbitrary: st)
  case Nil
  then show ?case by simp
next
  case (Cons item fs)
  then obtain f params body rt where item: "item = FuncDecl f params body rt"
    by (cases item) (auto simp: is_func_def)
  from Cons show ?case
    by (simp add: item exec_stmt_Suc exec_stmt_body_def bind_def)
qed

lemma lex_hoist:
  "lex no_nd (cps ''var r = F(); int F() { return 1; }'') =
     [Token ''VAR'' (cps ''var'') 0, Token ''ID'' (cps ''r'') 4, Token ''OP'' (cps ''='') 6,
      Token ''ID'' (cps ''F'') 8, Token ''OP'' (cps ''('') 9, Token ''OP'' (cps '')'') 10,
      Token ''OP'' (cps '';'') 11, Token ''INT'' (cps ''int'') 13, Token ''ID'' (cps ''F'') 17,
      Token ''OP'' (cps ''('') 18, Token ''OP'' (cps '')'') 19, Token ''OP'' (cps ''{'') 21,
      Token ''RETURN'' (cps ''return'') 23, Token ''NUMBER'' [49] 30,
      Token ''OP'' (cps '';'') 31, Token ''OP'' (cps ''}'') 33, Token ''EOF'' [] 34]"
  by code_simp

lemma parse_hoist:
  "parse_program no_nd 12 (cps ''var r = F(); int F() { return 1; }'') =
     Some (Inr [VarDecl (cps ''var'') ''r'' (Some (ECall ''F'' [])),
      FuncDecl ''F'' [] [Return (Some (ENumber 1))] (cps ''int'')])"
  unfolding parse_program_def lex_hoist
  by (simp add: parser_numeral parser_defs)

text \<open>
  Claim C8.  Let \<open>prog\<close> be the items that \<open>parse_program\<close> gives for the source.  The
  first loop of \<open>run_source\<close> executes the top-level \<open>FuncDecl\<close> items and ends normally in
  a state \<open>st1\<close>; the run is the second loop over the other items, started in \<open>st1\<close>, and
  then the call of \<open>Main\<close>.  So when a top-level statement \<open>s\<close> begins, after the
  statements \<open>pre\<close> before it, every function \<open>f\<close> declared at top level, above or below
  \<open>s\<close> in the text, is in the function table, and a call \<open>f()\<close> evaluated there is the
  call of the registered function: its body is run.  (A name that the parser takes from
  an identifier token is not \<open>List\<close> and has no dot.)
\<close>

theorem hoisting:
  assumes parsed: "parse_program nd n src = Some (Inr prog)"
  shows "\<exists>st1.
     exec_items n (filter is_func prog) (Runtime stdin) = Some (Inr (), st1) \<and>
     run_source nd n src stdin =
       bind (exec_items n (filter (\<lambda>item. \<not> is_func item) prog) st1)
         (\<lambda>u st2. call_Main n st2) \<and>
     (\<forall>pre s post st2 f params body rt.
        filter (\<lambda>item. \<not> is_func item) prog = pre @ s # post \<and>
        exec_items n pre st1 = Some (Inr (), st2) \<and>
        FuncDecl f params body rt \<in> set prog \<longrightarrow>
        (\<exists>fd. function_table st2 f = Some fd \<and>
           (f \<noteq> ''List'' \<and> CHR ''.'' \<notin> set f \<longrightarrow>
              (\<forall>m k. eval_expr (Suc (Suc m)) k (ECall f []) st2 =
                        call_function (exec_block (Suc m)) fd [] st2))))"
proof -
  from parsed obtain m where n: "n = Suc m"
    by (cases n) (auto simp: parse_program_def)
  have "list_all is_func (filter is_func prog)"
    by (simp add: list_all_iff)
  then obtain st1 where a: "exec_items n (filter is_func prog) (Runtime stdin) = Some (Inr (), st1)"
    unfolding n using exec_items_funcs by blast
  have r: "run_source nd n src stdin =
       bind (exec_items n (filter (\<lambda>item. \<not> is_func item) prog) st1)
         (\<lambda>u st2. call_Main n st2)"
    by (simp add: run_source_def parsed run_program_def a bind_def)
  have c: "\<forall>pre s post st2 f params body rt.
        filter (\<lambda>item. \<not> is_func item) prog = pre @ s # post \<and>
        exec_items n pre st1 = Some (Inr (), st2) \<and>
        FuncDecl f params body rt \<in> set prog \<longrightarrow>
        (\<exists>fd. function_table st2 f = Some fd \<and>
           (f \<noteq> ''List'' \<and> CHR ''.'' \<notin> set f \<longrightarrow>
              (\<forall>m k. eval_expr (Suc (Suc m)) k (ECall f []) st2 =
                        call_function (exec_block (Suc m)) fd [] st2)))"
  proof (intro allI impI, elim conjE)
    fix pre s post st2 f params body rt
    assume b: "exec_items n pre st1 = Some (Inr (), st2)"
      and decl: "FuncDecl f params body rt \<in> set prog"
    have "function_table st1 f \<noteq> None"
      using phase_a_registers[OF decl a] .
    with exec_items_ft[OF b] have "function_table st2 f \<noteq> None"
      by (rule ft_le_registered)
    then obtain fd where fd: "function_table st2 f = Some fd" by auto
    have "f \<noteq> ''List'' \<and> CHR ''.'' \<notin> set f \<longrightarrow>
              (\<forall>m k. eval_expr (Suc (Suc m)) k (ECall f []) st2 =
                        call_function (exec_block (Suc m)) fd [] st2)"
      using fd
      by (simp add: eval_expr_Suc eval_expr_body_def eval_call_def eval_args_Suc
          eval_args_body_def bind_def)
    with fd show "\<exists>fd. function_table st2 f = Some fd \<and>
           (f \<noteq> ''List'' \<and> CHR ''.'' \<notin> set f \<longrightarrow>
              (\<forall>m k. eval_expr (Suc (Suc m)) k (ECall f []) st2 =
                        call_function (exec_block (Suc m)) fd [] st2))"
      by blast
  qed
  from a r c show ?thesis by blast
qed

definition prog_hoist :: "stmt list" where
  "prog_hoist =
     [VarDecl (cps ''var'') ''r'' (Some (ECall ''F'' [])),
      FuncDecl ''F'' [] [Return (Some (ENumber 1))] (cps ''int'')]"

definition st_hoist :: state where
  "st_hoist = (Runtime [])\<lparr>function_table := [''F'' \<mapsto> ([], [Return (Some (ENumber 1))])]\<rparr>"

theorem hoisting_witness:
  "parse_program no_nd 12 (cps ''var r = F(); int F() { return 1; }'') = Some (Inr prog_hoist) \<and>
   exec_items 12 (filter is_func prog_hoist) (Runtime []) = Some (Inr (), st_hoist) \<and>
   filter (\<lambda>item. \<not> is_func item) prog_hoist =
     [] @ VarDecl (cps ''var'') ''r'' (Some (ECall ''F'' [])) # [] \<and>
   exec_items 12 [] st_hoist = Some (Inr (), st_hoist) \<and>
   FuncDecl ''F'' [] [Return (Some (ENumber 1))] (cps ''int'') \<in> set prog_hoist \<and>
   function_table st_hoist ''F'' = Some ([], [Return (Some (ENumber 1))]) \<and>
   eval_expr 5 0 (ECall ''F'' []) st_hoist =
     Some (Inr (VInt 1), st_hoist\<lparr>frames := [Map.empty, Map.empty]\<rparr>) \<and>
   run_source no_nd 12 (cps ''var r = F(); int F() { return 1; }'') [] =
     Some (Inr VNone, st_hoist\<lparr>frames := [[''r'' \<mapsto> VInt 1], Map.empty]\<rparr>)"
proof -
  have five: "(5::nat) = Suc (Suc 3)" by simp
  have p: "parse_program no_nd 12 (cps ''var r = F(); int F() { return 1; }'') =
             Some (Inr prog_hoist)"
    by (simp add: parse_hoist prog_hoist_def)
  have a: "exec_items 12 (filter is_func prog_hoist) (Runtime []) = Some (Inr (), st_hoist)"
    by (simp add: prog_hoist_def st_hoist_def is_func_def Runtime_def interp_numeral interp_Suc
        interp_defs)
  have s: "filter (\<lambda>item. \<not> is_func item) prog_hoist =
     [] @ VarDecl (cps ''var'') ''r'' (Some (ECall ''F'' [])) # []"
    by (simp add: prog_hoist_def is_func_def)
  have b: "exec_items 12 [] st_hoist = Some (Inr (), st_hoist)"
    by simp
  have d: "FuncDecl ''F'' [] [Return (Some (ENumber 1))] (cps ''int'') \<in> set prog_hoist"
    by (simp add: prog_hoist_def)
  have f: "function_table st_hoist ''F'' = Some ([], [Return (Some (ENumber 1))])"
    by (simp add: st_hoist_def)
  have n1: "''F'' \<noteq> ''List'' \<and> CHR ''.'' \<notin> set ''F''" by simp
  from hoisting[OF p, of "[]"] obtain st1 where
    a1: "exec_items 12 (filter is_func prog_hoist) (Runtime []) = Some (Inr (), st1)" and
    r1: "run_source no_nd 12 (cps ''var r = F(); int F() { return 1; }'') [] =
           bind (exec_items 12 (filter (\<lambda>item. \<not> is_func item) prog_hoist) st1)
             (\<lambda>u st2. call_Main 12 st2)" and
    c1: "\<forall>pre s post st2 f params body rt.
        filter (\<lambda>item. \<not> is_func item) prog_hoist = pre @ s # post \<and>
        exec_items 12 pre st1 = Some (Inr (), st2) \<and>
        FuncDecl f params body rt \<in> set prog_hoist \<longrightarrow>
        (\<exists>fd. function_table st2 f = Some fd \<and>
           (f \<noteq> ''List'' \<and> CHR ''.'' \<notin> set f \<longrightarrow>
              (\<forall>m k. eval_expr (Suc (Suc m)) k (ECall f []) st2 =
                        call_function (exec_block (Suc m)) fd [] st2)))"
    by blast
  from a a1 have st1: "st1 = st_hoist" by simp
  from c1 s b d obtain fd where fd: "function_table st_hoist ''F'' = Some fd"
    and e: "''F'' \<noteq> ''List'' \<and> CHR ''.'' \<notin> set ''F'' \<longrightarrow>
              (\<forall>m k. eval_expr (Suc (Suc m)) k (ECall ''F'' []) st_hoist =
                        call_function (exec_block (Suc m)) fd [] st_hoist)"
    unfolding st1 by blast
  from fd f have fd': "fd = ([], [Return (Some (ENumber 1))])" by simp
  from e n1 have "eval_expr (Suc (Suc 3)) 0 (ECall ''F'' []) st_hoist =
                    call_function (exec_block (Suc 3)) fd [] st_hoist"
    by blast
  then have c: "eval_expr 5 0 (ECall ''F'' []) st_hoist =
     Some (Inr (VInt 1), st_hoist\<lparr>frames := [Map.empty, Map.empty]\<rparr>)"
    unfolding five fd'
    by (simp add: st_hoist_def Runtime_def interp_numeral interp_Suc interp_defs)
  have r: "run_source no_nd 12 (cps ''var r = F(); int F() { return 1; }'') [] =
     Some (Inr VNone, st_hoist\<lparr>frames := [[''r'' \<mapsto> VInt 1], Map.empty]\<rparr>)"
    unfolding r1 st1
    by (simp add: prog_hoist_def st_hoist_def run_defs interp_numeral interp_Suc interp_defs)
  from p a s b d f c r show ?thesis by blast
qed

subsection \<open>Assignment to a name\<close>




subsection \<open>Index-assignment in a function body\<close>




end
